theory Spec2Isabelle
  imports Main "HOL-Library.Word" "HOL-Library.Sublist" "HOL-Library.Multiset"
begin

section \<open>Shared vocabulary\<close>

text \<open>
  Go strings are byte sequences: \<^typ>\<open>string\<close>. \<open>strings.HasPrefix s p\<close> says that
  \<open>p\<close> is an initial segment of \<open>s\<close>.
\<close>

definition HasPrefix :: "string \<Rightarrow> string \<Rightarrow> bool" where
  "HasPrefix s p = prefix p s"

section \<open>internal/ivory/huge_pages.go\<close>

text \<open>
  \<open>resource.Quantity\<close> belongs to the Kubernetes library; the code reads it only through
  \<open>Value()\<close>, an \<open>int64\<close>, so a quantity is represented by that reading.
  \<open>corev1.ResourceList\<close> is a Go map from resource names to quantities: it is kept as
  the list of its entries in the order the \<open>range\<close> statement visits them, and looked up
  by key as the map is. \<open>ResourceList.Name\<close> never returns nil: a missing key gives a
  zero quantity.
\<close>

record Quantity =
  Value :: "64 word"

type_synonym ResourceList = "(string \<times> Quantity) list"

record InstanceSetSpec =
  Limits :: ResourceList

record IvoryClusterSpec =
  InstanceSets :: "InstanceSetSpec list"

text \<open>
  \<open>Parameters\<close> holds two parameter sets. The type \<open>ParameterSet\<close> and its method
  \<open>Add\<close> are declared in another file of the package; the set is a type parameter
  \<open>'ps\<close> here and \<open>Add\<close> is passed in.
\<close>

record 'ps Parameters =
  Mandatory :: 'ps
  Default :: 'ps

definition ResourceHugePagesPrefix :: string where
  "ResourceHugePagesPrefix = ''hugepages-''"

definition Name_rl :: "ResourceList \<Rightarrow> string \<Rightarrow> Quantity option" where
  "Name_rl rl name =
     (case map_of rl name of
        Some v \<Rightarrow> Some v
      | None \<Rightarrow> Some \<lparr>Value = 0\<rparr>)"

text \<open>The inner loop of \<open>hugePagesRequested\<close>: \<open>True\<close> is the early \<open>return true\<close>.\<close>

fun hugePagesInLimits :: "ResourceList \<Rightarrow> ResourceList \<Rightarrow> bool" where
  "hugePagesInLimits limits [] = False"
| "hugePagesInLimits limits ((resourceName, _) # rest) =
     (if HasPrefix resourceName ResourceHugePagesPrefix then
        (case Name_rl limits resourceName of
           Some resourceQuantity \<Rightarrow>
             if 0 <s Value resourceQuantity then True
             else hugePagesInLimits limits rest
         | None \<Rightarrow> hugePagesInLimits limits rest)
      else hugePagesInLimits limits rest)"

fun hugePagesInInstances :: "InstanceSetSpec list \<Rightarrow> bool" where
  "hugePagesInInstances [] = False"
| "hugePagesInInstances (instance # rest) =
     (if hugePagesInLimits (Limits instance) (Limits instance) then True
      else hugePagesInInstances rest)"

definition hugePagesRequested :: "IvoryClusterSpec \<Rightarrow> bool" where
  "hugePagesRequested cluster = hugePagesInInstances (InstanceSets cluster)"

definition SetHugePages ::
  "(string \<Rightarrow> string \<Rightarrow> 'ps \<Rightarrow> 'ps) \<Rightarrow> IvoryClusterSpec \<Rightarrow> 'ps Parameters \<Rightarrow> 'ps Parameters" where
  "SetHugePages Add cluster pgParameters =
     (if hugePagesRequested cluster
      then pgParameters\<lparr>Default := Add ''huge_pages'' ''try'' (Default pgParameters)\<rparr>
      else pgParameters\<lparr>Default := Add ''huge_pages'' ''off'' (Default pgParameters)\<rparr>)"

text \<open>
  What the claim calls a huge-pages request: an instance set with a limit whose name has
  the huge-pages prefix and whose quantity is above zero.
\<close>

definition hugePagesLimit :: "InstanceSetSpec \<Rightarrow> bool" where
  "hugePagesLimit instance =
     (\<exists>name q. map_of (Limits instance) name = Some q
        \<and> HasPrefix name ResourceHugePagesPrefix \<and> 0 < sint (Value q))"

section \<open>internal/pgbackrest/config.go\<close>

text \<open>
  The types \<open>iniMultiSet\<close> and \<open>iniSectionSet\<close>, with the methods \<open>Set\<close>, \<open>Add\<close> and
  \<open>String\<close>, are declared in another file of the package. The source builds them with
  Go map literals, so they are maps here: a section maps a key to its list of values,
  \<open>Set\<close> replaces the values of a key by one value and \<open>Add\<close> appends a value to them.
\<close>

type_synonym iniMultiSet = "string \<rightharpoonup> string list"

type_synonym iniSectionSet = "string \<rightharpoonup> iniMultiSet"

definition Set_ini :: "string \<Rightarrow> string \<Rightarrow> iniMultiSet \<Rightarrow> iniMultiSet" where
  "Set_ini key v ms = ms(key \<mapsto> [v])"

definition Add_ini :: "string \<Rightarrow> string \<Rightarrow> iniMultiSet \<Rightarrow> iniMultiSet" where
  "Add_ini key v ms = ms(key \<mapsto> (case ms key of None \<Rightarrow> [] | Some vs \<Rightarrow> vs) @ [v])"

text \<open>
  A Go map of strings is kept as the list of its entries; a \<open>range\<close> statement visits
  each entry once, in an order the language leaves open. \<open>range_set\<close> is the loop
  \<open>for option, val := range m { global.Set(option, val) }\<close> over the entries in the
  order they are visited.
\<close>

type_synonym entries = "(string \<times> string) list"

fun range_set :: "entries \<Rightarrow> iniMultiSet \<Rightarrow> iniMultiSet" where
  "range_set [] global = global"
| "range_set ((option, val) # rest) global = range_set rest (Set_ini option val global)"

record RepoAzure =
  Container :: string

record RepoGCS =
  Bucket_gcs :: string

record RepoS3 =
  Bucket_s3 :: string
  Endpoint :: string
  Region :: string

text \<open>The volume claim of a repository is only tested for nil.\<close>

datatype RepoPVC = RepoPVC

record PGBackRestRepo =
  Name :: string
  Volume :: "RepoPVC option"
  Azure :: "RepoAzure option"
  GCS :: "RepoGCS option"
  S3 :: "RepoS3 option"

text \<open>
  Constants of the packages \<open>naming\<close>, \<open>ivory\<close> and \<open>pgbackrest\<close> that the builders
  use and that are declared outside the files at hand, and the cluster domain that
  \<open>naming.KubernetesClusterDomain\<close> reports. \<open>PGBackRestRepoLogPath\<close> is the format
  applied to a repository name.
\<close>

record constants =
  certAuthorityAbsolutePath :: string
  certClientAbsolutePath :: string
  certClientPrivateKeyAbsolutePath :: string
  certServerAbsolutePath :: string
  certServerPrivateKeyAbsolutePath :: string
  PGBackRestPGDataLogPath :: string
  PGBackRestRepoLogPath :: "string \<Rightarrow> string"
  SocketDirectory :: string
  KubernetesClusterDomain :: string
  PGBackRestIPVersion :: string

definition defaultRepo1Path :: string where
  "defaultRepo1Path = ''/pgbackrest/''"

definition DefaultStanzaName :: string where
  "DefaultStanzaName = ''db''"

text \<open>\<open>%d\<close> of a non-negative integer, and \<open>fmt.Sprint\<close> of an \<open>int32\<close>.\<close>

definition digit :: "nat \<Rightarrow> char" where
  "digit d = char_of (48 + d)"

fun decimal :: "nat \<Rightarrow> string" where
  "decimal n = (if n < 10 then [digit n] else decimal (n div 10) @ [digit (n mod 10)])"

declare decimal.simps [simp del]

definition Sprint_int32 :: "32 word \<Rightarrow> string" where
  "Sprint_int32 p =
     (if sint p < 0 then CHR ''-'' # decimal (nat (- sint p)) else decimal (nat (sint p)))"

definition getExternalRepoConfigs :: "PGBackRestRepo \<Rightarrow> entries" where
  "getExternalRepoConfigs repo =
     (case Azure repo of
        Some azure \<Rightarrow>
          [(Name repo @ ''-type'', ''azure''),
           (Name repo @ ''-azure-container'', Container azure)]
      | None \<Rightarrow>
        (case GCS repo of
           Some gcs \<Rightarrow>
             [(Name repo @ ''-type'', ''gcs''),
              (Name repo @ ''-gcs-bucket'', Bucket_gcs gcs)]
         | None \<Rightarrow>
           (case S3 repo of
              Some s3 \<Rightarrow>
                [(Name repo @ ''-type'', ''s3''),
                 (Name repo @ ''-s3-bucket'', Bucket_s3 s3),
                 (Name repo @ ''-s3-endpoint'', Endpoint s3),
                 (Name repo @ ''-s3-region'', Region s3)]
            | None \<Rightarrow> [])))"

text \<open>
  The loop over the repositories in \<open>populatePGInstanceConfigurationMap\<close>. \<open>visit i\<close>
  is the order in which the \<open>range\<close> over the external configuration of the \<open>i\<close>-th
  repository visits its entries.
\<close>

fun instanceRepos ::
  "constants \<Rightarrow> (nat \<Rightarrow> entries \<Rightarrow> entries) \<Rightarrow> string \<Rightarrow> string \<Rightarrow> nat
     \<Rightarrow> PGBackRestRepo list \<Rightarrow> iniMultiSet \<Rightarrow> iniMultiSet" where
  "instanceRepos c visit repoHostName repoHostFQDN i [] global = global"
| "instanceRepos c visit repoHostName repoHostFQDN i (repo # rest) global =
     (let global = Set_ini (Name repo @ ''-path'') (defaultRepo1Path @ Name repo) global;
          global = (if Volume repo = None
                    then range_set (visit i (getExternalRepoConfigs repo)) global
                    else global);
          global = (if repoHostName \<noteq> [] \<and> Volume repo \<noteq> None then
                      Set_ini (Name repo @ ''-host-user'') ''ivory''
                        (Set_ini (Name repo @ ''-host-key-file'') (certClientPrivateKeyAbsolutePath c)
                          (Set_ini (Name repo @ ''-host-cert-file'') (certClientAbsolutePath c)
                            (Set_ini (Name repo @ ''-host-ca-file'') (certAuthorityAbsolutePath c)
                              (Set_ini (Name repo @ ''-host-type'') ''tls''
                                (Set_ini (Name repo @ ''-host'') repoHostFQDN global)))))
                    else global)
      in instanceRepos c visit repoHostName repoHostFQDN (Suc i) rest global)"

definition populatePGInstanceConfigurationMap ::
  "constants \<Rightarrow> (nat \<Rightarrow> entries \<Rightarrow> entries) \<Rightarrow> string \<Rightarrow> string \<Rightarrow> string \<Rightarrow> string
     \<Rightarrow> 32 word \<Rightarrow> PGBackRestRepo list \<Rightarrow> entries \<Rightarrow> iniSectionSet" where
  "populatePGInstanceConfigurationMap c visit serviceName serviceNamespace repoHostName
       pgdataDir pgPort repos globalConfig =
     (let repoHostFQDN = repoHostName @ ''-0.'' @ serviceName @ ''.'' @ serviceNamespace
            @ ''.svc.'' @ KubernetesClusterDomain c;
          global = Map.empty;
          stanza = Map.empty;
          global = Set_ini ''log-path'' (PGBackRestPGDataLogPath c) global;
          global = instanceRepos c visit repoHostName repoHostFQDN 0 repos global;
          global = range_set globalConfig global;
          stanza = Set_ini ''pg1-path'' pgdataDir stanza;
          stanza = Set_ini ''pg1-port'' (Sprint_int32 pgPort) stanza;
          stanza = Set_ini ''pg1-socket-path'' (SocketDirectory c) stanza
      in [''global'' \<mapsto> global, DefaultStanzaName \<mapsto> stanza])"

text \<open>
  The loop over the repositories in \<open>populateRepoHostConfigurationMap\<close>; its state is the
  global section and the flag \<open>pgBackRestLogPathSet\<close>.
\<close>

fun repoHostRepos ::
  "constants \<Rightarrow> (nat \<Rightarrow> entries \<Rightarrow> entries) \<Rightarrow> nat \<Rightarrow> PGBackRestRepo list
     \<Rightarrow> iniMultiSet \<times> bool \<Rightarrow> iniMultiSet \<times> bool" where
  "repoHostRepos c visit i [] st = st"
| "repoHostRepos c visit i (repo # rest) (global, pgBackRestLogPathSet) =
     (let global = Set_ini (Name repo @ ''-path'') (defaultRepo1Path @ Name repo) global;
          global = (if Volume repo = None
                    then range_set (visit i (getExternalRepoConfigs repo)) global
                    else global)
      in if \<not> pgBackRestLogPathSet \<and> Volume repo \<noteq> None
         then repoHostRepos c visit (Suc i) rest
                (Set_ini ''log-path'' (PGBackRestRepoLogPath c (Name repo)) global, True)
         else repoHostRepos c visit (Suc i) rest (global, pgBackRestLogPathSet))"

text \<open>The key \<open>fmt.Sprintf("pg%d" + sfx, n)\<close>.\<close>

definition pgKey :: "nat \<Rightarrow> string \<Rightarrow> string" where
  "pgKey n sfx = ''pg'' @ decimal n @ sfx"

text \<open>The loop over the hosts: \<open>i\<close> is the index of the host at the head.\<close>

fun repoHostHosts ::
  "constants \<Rightarrow> string \<Rightarrow> string \<Rightarrow> string \<Rightarrow> 32 word \<Rightarrow> nat \<Rightarrow> string list
     \<Rightarrow> iniMultiSet \<Rightarrow> iniMultiSet" where
  "repoHostHosts c serviceName serviceNamespace pgdataDir pgPort i [] stanza = stanza"
| "repoHostHosts c serviceName serviceNamespace pgdataDir pgPort i (pgHost # rest) stanza =
     (let pgHostFQDN = pgHost @ ''-0.'' @ serviceName @ ''.'' @ serviceNamespace
            @ ''.svc.'' @ KubernetesClusterDomain c;
          stanza = Set_ini (pgKey (i + 1) ''-host'') pgHostFQDN stanza;
          stanza = Set_ini (pgKey (i + 1) ''-host-type'') ''tls'' stanza;
          stanza = Set_ini (pgKey (i + 1) ''-host-ca-file'') (certAuthorityAbsolutePath c) stanza;
          stanza = Set_ini (pgKey (i + 1) ''-host-cert-file'') (certClientAbsolutePath c) stanza;
          stanza = Set_ini (pgKey (i + 1) ''-host-key-file'')
                     (certClientPrivateKeyAbsolutePath c) stanza;
          stanza = Set_ini (pgKey (i + 1) ''-path'') pgdataDir stanza;
          stanza = Set_ini (pgKey (i + 1) ''-port'') (Sprint_int32 pgPort) stanza;
          stanza = Set_ini (pgKey (i + 1) ''-socket-path'') (SocketDirectory c) stanza
      in repoHostHosts c serviceName serviceNamespace pgdataDir pgPort (Suc i) rest stanza)"

definition populateRepoHostConfigurationMap ::
  "constants \<Rightarrow> (nat \<Rightarrow> entries \<Rightarrow> entries) \<Rightarrow> string \<Rightarrow> string \<Rightarrow> string \<Rightarrow> 32 word
     \<Rightarrow> string list \<Rightarrow> PGBackRestRepo list \<Rightarrow> entries \<Rightarrow> iniSectionSet" where
  "populateRepoHostConfigurationMap c visit serviceName serviceNamespace pgdataDir pgPort
       pgHosts repos globalConfig =
     (let global = Map.empty;
          stanza = Map.empty;
          (global, pgBackRestLogPathSet) = repoHostRepos c visit 0 repos (global, False);
          global = range_set globalConfig global;
          stanza = repoHostHosts c serviceName serviceNamespace pgdataDir pgPort 0 pgHosts stanza
      in [''global'' \<mapsto> global, DefaultStanzaName \<mapsto> stanza])"

text \<open>
  \<open>strings.EqualFold\<close> compares under simple case folding. Only the letters of ASCII are
  folded here; against the ASCII word \<open>ipv6\<close>, the only use in the source, that is the
  same relation, since no other character folds to one of its letters.
\<close>

definition toLower :: "char \<Rightarrow> char" where
  "toLower ch =
     (if 65 \<le> (of_char ch :: nat) \<and> (of_char ch :: nat) \<le> 90
      then char_of ((of_char ch :: nat) + 32) else ch)"

definition EqualFold :: "string \<Rightarrow> string \<Rightarrow> bool" where
  "EqualFold s t = (map toLower s = map toLower t)"

text \<open>Indexing a Go map of strings: a missing key reads as the empty string.\<close>

definition index_map :: "(string \<rightharpoonup> string) \<Rightarrow> string \<Rightarrow> string" where
  "index_map m key = (case m key of None \<Rightarrow> [] | Some v \<Rightarrow> v)"

text \<open>
  \<open>serverConfig\<close> reads the annotations of the cluster and its client common name
  (\<open>clientCommonName\<close>, defined in another file); both are passed in.
\<close>

definition serverConfig :: "constants \<Rightarrow> string \<Rightarrow> (string \<rightharpoonup> string) \<Rightarrow> iniSectionSet" where
  "serverConfig c clientCommonName annotations =
     (let global = Map.empty;
          server = Map.empty;
          global = Set_ini ''tls-server-address'' ''0.0.0.0'' global;
          global = (if EqualFold (index_map annotations (PGBackRestIPVersion c)) ''ipv6''
                    then Set_ini ''tls-server-address'' ''::'' global
                    else global);
          global = Add_ini ''tls-server-auth'' (clientCommonName @ ''=*'') global;
          global = Set_ini ''tls-server-ca-file'' (certAuthorityAbsolutePath c) global;
          global = Set_ini ''tls-server-cert-file'' (certServerAbsolutePath c) global;
          global = Set_ini ''tls-server-key-file'' (certServerPrivateKeyAbsolutePath c) global;
          server = Set_ini ''log-level-console'' ''detail'' server;
          server = Set_ini ''log-level-stderr'' ''error'' server;
          server = Set_ini ''log-level-file'' ''off'' server;
          server = Set_ini ''log-timestamp'' ''n'' server
      in [''global'' \<mapsto> global, ''global:server'' \<mapsto> server])"

section \<open>internal/controller/ivyupgrade: the upgrade reconciler\<close>

text \<open>
  The reconciler talks to the Kubernetes API through its client. One call of \<open>Reconcile\<close>
  is modelled as a function of the answers the API gives during the call (the record
  \<open>client\<close>), returning the result, the error, the upgrade as it stands in memory at the
  end, and the list of the writes sent to the API, in order.
\<close>

datatype error = NotFound | Failure string

definition IgnoreNotFound :: "error option \<Rightarrow> error option" where
  "IgnoreNotFound err = (case err of Some NotFound \<Rightarrow> None | _ \<Rightarrow> err)"

definition Error_string :: "error \<Rightarrow> string" where
  "Error_string e = (case e of NotFound \<Rightarrow> ''not found'' | Failure msg \<Rightarrow> msg)"

definition Sprint_int :: "int \<Rightarrow> string" where
  "Sprint_int i = (if i < 0 then CHR ''-'' # decimal (nat (- i)) else decimal (nat i))"

subsection \<open>Conditions (k8s.io/apimachinery/pkg/api/meta)\<close>

datatype ConditionStatus = ConditionTrue | ConditionFalse | ConditionUnknown

text \<open>A time is a number of ticks; \<open>0\<close> is the zero time of \<open>IsZero\<close>.\<close>

record Condition =
  Type :: string
  Status :: ConditionStatus
  ObservedGeneration :: int
  LastTransitionTime :: nat
  Reason :: string
  Message :: string

definition FindStatusCondition :: "Condition list \<Rightarrow> string \<Rightarrow> Condition option" where
  "FindStatusCondition conditions conditionType =
     find (\<lambda>c. Type c = conditionType) conditions"

text \<open>The update of the first condition of a type, which \<open>SetStatusCondition\<close> does in place.\<close>

fun updateFirst :: "string \<Rightarrow> (Condition \<Rightarrow> Condition) \<Rightarrow> Condition list \<Rightarrow> Condition list" where
  "updateFirst conditionType f [] = []"
| "updateFirst conditionType f (c # cs) =
     (if Type c = conditionType then f c # cs else c # updateFirst conditionType f cs)"

definition SetStatusCondition :: "nat \<Rightarrow> Condition list \<Rightarrow> Condition \<Rightarrow> Condition list" where
  "SetStatusCondition now conditions newCondition =
     (case FindStatusCondition conditions (Type newCondition) of
        None \<Rightarrow>
          conditions @
            [if LastTransitionTime newCondition = 0
             then newCondition\<lparr>LastTransitionTime := now\<rparr> else newCondition]
      | Some existingCondition \<Rightarrow>
          updateFirst (Type newCondition)
            (\<lambda>existing.
               (if Status existing \<noteq> Status newCondition
                then existing\<lparr>Status := Status newCondition,
                       LastTransitionTime :=
                         (if LastTransitionTime newCondition \<noteq> 0
                          then LastTransitionTime newCondition else now)\<rparr>
                else existing)
               \<lparr>Reason := Reason newCondition, Message := Message newCondition,
                ObservedGeneration := ObservedGeneration newCondition\<rparr>)
            conditions)"

subsection \<open>The objects\<close>

text \<open>
  Modelled from the spec: the condition types are constants declared in another file of
  the package; the spec names the two conditions of an upgrade request \<open>Progressing\<close> and
  \<open>Succeeded\<close>.
\<close>

definition ConditionIvyUpgradeProgressing :: string where
  "ConditionIvyUpgradeProgressing = ''Progressing''"

definition ConditionIvyUpgradeSucceeded :: string where
  "ConditionIvyUpgradeSucceeded = ''Succeeded''"

definition AnnotationAllowUpgrade :: string where
  "AnnotationAllowUpgrade = ''ivory-operator.highgo.com/allow-upgrade''"

text \<open>The upgrade request; \<open>Conditions\<close> is its \<open>Status.Conditions\<close>, the part of the status
  that \<open>Reconcile\<close> writes.\<close>

record IvyUpgrade =
  Name_upgrade :: string
  Generation :: int
  IvoryClusterName :: string
  FromIvoryVersion :: int
  ToIvoryVersion :: int
  Conditions :: "Condition list"

text \<open>The target cluster: its annotations, \<open>Spec.PostgresVersion\<close>,
  \<open>Status.PostgresVersion\<close> and \<open>Status.PGBackRest.Repos\<close>.\<close>

record IvoryCluster =
  Annotations :: "string \<rightharpoonup> string"
  Spec_PostgresVersion :: int
  Status_PostgresVersion :: int
  Status_Repos :: "string list"

text \<open>
  A job, with what the reconciler reads of it: its name, its labels, and the verdicts of
  \<open>jobCompleted\<close> and \<open>jobFailed\<close> (both defined in another file) on it.
\<close>

record Job =
  Name_job :: string
  Labels :: "string \<rightharpoonup> string"
  jobCompleted :: bool
  jobFailed :: bool

text \<open>
  What \<open>observeWorld\<close> returns. \<open>Jobs\<close> is a Go map from job names to jobs, kept as the
  list of its entries in the order a \<open>range\<close> visits them. \<open>Cluster\<close> is set whenever
  \<open>ClusterNotFound\<close> is nil. Stateful sets and endpoints are known by their names.
\<close>

record World =
  ClusterNotFound :: "error option"
  Cluster :: IvoryCluster
  Jobs :: "(string \<times> Job) list"
  ClusterShutdown :: bool
  ClusterPrimary :: "string option"
  ClusterReplicas :: "string list"
  PatroniEndpoints :: "string list"
  ReplicasExpected :: int

text \<open>The writes a call sends to the API.\<close>

datatype effect =
    ApplyUpgradeJob "string option"
  | ApplyRemoveDataJob string
  | DeleteJob string
  | DeleteEndpoints string
  | PatchClusterStatus IvoryCluster
  | PatchUpgradeStatus "Condition list"

text \<open>
  The answers of the API during one call, the reading of the clock, and the names that
  the package takes from files outside the ones at hand: the labels and their values, and
  the name \<open>pgUpgradeJob\<close> gives to the upgrade job of a request, from the name of the
  request.
\<close>

record client =
  Get :: "error + IvyUpgrade"
  observeWorld :: "error + World"
  apply_job :: "effect \<Rightarrow> error option"
  Delete :: "effect \<Rightarrow> error option"
  Patch_cluster_status :: "error option"
  Patch_upgrade_status :: "error option"
  now :: nat
  pgUpgradeJob_Name :: "string \<Rightarrow> string"
  LabelRole :: string
  removeData :: string
  LabelPGBackRestBackup :: string
  ReplicaCreate :: string

record Result =
  Requeue :: bool
  RequeueAfter :: nat

definition Result_zero :: Result where
  "Result_zero = \<lparr>Requeue = False, RequeueAfter = 0\<rparr>"

text \<open>The state of a call: the upgrade in memory, the named results, the writes so far.\<close>

record state =
  s_upgrade :: IvyUpgrade
  s_result :: Result
  s_err :: "error option"
  s_effects :: "effect list"

definition setCondition :: "client \<Rightarrow> Condition \<Rightarrow> IvyUpgrade \<Rightarrow> IvyUpgrade" where
  "setCondition r newCondition u =
     u\<lparr>Conditions := SetStatusCondition (now r) (Conditions u) newCondition\<rparr>"

definition setStatusToProgressingIfReasonWas :: "client \<Rightarrow> string \<Rightarrow> IvyUpgrade \<Rightarrow> IvyUpgrade" where
  "setStatusToProgressingIfReasonWas r reason u =
     (let progressing = FindStatusCondition (Conditions u) ConditionIvyUpgradeProgressing in
      if progressing = None \<or> (\<exists>p. progressing = Some p \<and> Reason p = reason) then
        setCondition r
          \<lparr>Type = ConditionIvyUpgradeProgressing, Status = ConditionTrue,
           ObservedGeneration = Generation u, LastTransitionTime = 0,
           Reason = ''IvyUpgradeProgressing'',
           Message = ''Upgrade progressing for cluster '' @ IvoryClusterName u\<rparr> u
      else u)"

text \<open>A condition of type \<open>Progressing\<close> with status \<open>False\<close>, as every gate writes it.\<close>

definition notProgressing :: "IvyUpgrade \<Rightarrow> string \<Rightarrow> string \<Rightarrow> Condition" where
  "notProgressing u reason message =
     \<lparr>Type = ConditionIvyUpgradeProgressing, Status = ConditionFalse,
      ObservedGeneration = Generation u, LastTransitionTime = 0,
      Reason = reason, Message = message\<rparr>"

text \<open>A \<open>return\<close> with the given result and error.\<close>

definition return :: "IvyUpgrade \<Rightarrow> Result \<Rightarrow> error option \<Rightarrow> effect list \<Rightarrow> state" where
  "return u res e effs = \<lparr>s_upgrade = u, s_result = res, s_err = e, s_effects = effs\<rparr>"

subsection \<open>Reconcile\<close>

text \<open>
  The loop over \<open>world.Jobs\<close> that sorts the remove-data jobs: its state is the flag
  \<open>removeDataJobsFailed\<close> and the list \<open>removeDataJobsCompleted\<close>; a failed job ends it
  (\<open>break\<close>).
\<close>

fun removeDataJobs :: "client \<Rightarrow> Job list \<Rightarrow> bool \<times> Job list \<Rightarrow> bool \<times> Job list" where
  "removeDataJobs r [] st = st"
| "removeDataJobs r (job # rest) (removeDataJobsFailed, removeDataJobsCompleted) =
     (if index_map (Labels job) (LabelRole r) = removeData r then
        (if jobCompleted job
         then removeDataJobs r rest (removeDataJobsFailed, removeDataJobsCompleted @ [job])
         else if jobFailed job then (True, removeDataJobsCompleted)
         else removeDataJobs r rest (removeDataJobsFailed, removeDataJobsCompleted))
      else removeDataJobs r rest (removeDataJobsFailed, removeDataJobsCompleted))"

text \<open>The loop that deletes the replica-create jobs; its state is \<open>err\<close> and the writes.\<close>

fun deleteReplicaCreateJobs ::
  "client \<Rightarrow> Job list \<Rightarrow> error option \<times> effect list \<Rightarrow> error option \<times> effect list" where
  "deleteReplicaCreateJobs r [] st = st"
| "deleteReplicaCreateJobs r (object # rest) (err, effs) =
     (if err = None \<and> index_map (Labels object) (LabelPGBackRestBackup r) = ReplicaCreate r
      then deleteReplicaCreateJobs r rest
             (IgnoreNotFound (Delete r (DeleteJob (Name_job object))),
              effs @ [DeleteJob (Name_job object)])
      else deleteReplicaCreateJobs r rest (err, effs))"

text \<open>The loop that applies one remove-data job for each replica.\<close>

fun applyRemoveDataJobs ::
  "client \<Rightarrow> string list \<Rightarrow> error option \<times> effect list \<Rightarrow> error option \<times> effect list" where
  "applyRemoveDataJobs r [] st = st"
| "applyRemoveDataJobs r (sts # rest) (err, effs) =
     (if err = None
      then applyRemoveDataJobs r rest
             (apply_job r (ApplyRemoveDataJob sts), effs @ [ApplyRemoveDataJob sts])
      else applyRemoveDataJobs r rest (err, effs))"

text \<open>The loop that deletes the endpoints of Patroni: every turn overwrites \<open>err\<close>.\<close>

fun deletePatroniEndpoints ::
  "client \<Rightarrow> string list \<Rightarrow> error option \<times> effect list \<Rightarrow> error option \<times> effect list" where
  "deletePatroniEndpoints r [] st = st"
| "deletePatroniEndpoints r (object # rest) (err, effs) =
     deletePatroniEndpoints r rest
       (IgnoreNotFound (Delete r (DeleteEndpoints object)), effs @ [DeleteEndpoints object])"

text \<open>
  The end of \<open>Reconcile\<close>, from the comment \<open>If we have reached this point, all
  preconditions for upgrade are satisfied\<close> on; \<open>err\<close> is nil there.
\<close>

definition driveUpgrade :: "client \<Rightarrow> IvyUpgrade \<Rightarrow> World \<Rightarrow> bool \<Rightarrow> bool \<Rightarrow> state" where
  "driveUpgrade r u world upgradeJobComplete removeDataJobsComplete =
     (let statusVersion = Status_PostgresVersion (Cluster world) in
      if upgradeJobComplete \<and> removeDataJobsComplete \<and> statusVersion \<noteq> ToIvoryVersion u then
        (let (err, effs) = deleteReplicaCreateJobs r (map snd (Jobs world)) (None, []) in
         if err = None then
           (let patch = (Cluster world)\<lparr>Status_PostgresVersion := ToIvoryVersion u,
                                        Status_Repos := []\<rparr>
            in return u Result_zero (Patch_cluster_status r) (effs @ [PatchClusterStatus patch]))
         else return u Result_zero err effs)
      else
        (let (err, effs) =
               (if \<not> upgradeJobComplete
                then (apply_job r (ApplyUpgradeJob (ClusterPrimary world)),
                      [ApplyUpgradeJob (ClusterPrimary world)])
                else (None, []));
             (err, effs) =
               (if err = None \<and> upgradeJobComplete \<and> \<not> removeDataJobsComplete
                then applyRemoveDataJobs r (ClusterReplicas world) (err, effs)
                else (err, effs))
         in if length (PatroniEndpoints world) > 0 then
              (let (err, effs) = deletePatroniEndpoints r (PatroniEndpoints world) (err, effs)
               in return u \<lparr>Requeue = True, RequeueAfter = 0\<rparr> err effs)
            else return u Result_zero err effs))"

text \<open>\<open>Reconcile\<close> from the observation of the world, when it has not failed.\<close>

definition reconcileWorld :: "client \<Rightarrow> IvyUpgrade \<Rightarrow> World \<Rightarrow> state" where
  "reconcileWorld r u world =
     (case ClusterNotFound world of
        Some notFound \<Rightarrow>
          return (setCondition r (notProgressing u ''PGClusterNotFound'' (Error_string notFound)) u)
            Result_zero None []
      | None \<Rightarrow>
        (let u = setStatusToProgressingIfReasonWas r ''PGClusterNotFound'' u;
             version = Spec_PostgresVersion (Cluster world);
             statusVersion = Status_PostgresVersion (Cluster world);
             upgradeJob = map_of (Jobs world) (pgUpgradeJob_Name r (Name_upgrade u));
             upgradeJobComplete = (case upgradeJob of None \<Rightarrow> False | Some job \<Rightarrow> jobCompleted job);
             upgradeJobFailed = (case upgradeJob of None \<Rightarrow> False | Some job \<Rightarrow> jobFailed job);
             (removeDataJobsFailed, removeDataJobsCompleted) =
               removeDataJobs r (map snd (Jobs world)) (False, []);
             removeDataJobsComplete =
               (int (length removeDataJobsCompleted) = ReplicasExpected world)
         in
         if version = ToIvoryVersion u \<and> \<not> upgradeJobComplete then
           return (setCondition r (notProgressing u ''IvyUpgradeResolved''
                      (''IvoryCluster '' @ IvoryClusterName u @ '' is already running version ''
                         @ Sprint_int (ToIvoryVersion u))) u)
             Result_zero None []
         else
         (let u = setStatusToProgressingIfReasonWas r ''IvyUpgradeResolved'' u in
          if statusVersion = ToIvoryVersion u then
            (let u = setCondition r (notProgressing u ''IvyUpgradeCompleted''
                       (''IvoryCluster '' @ IvoryClusterName u @ '' is running version ''
                          @ Sprint_int (ToIvoryVersion u))) u;
                 u = (if upgradeJobComplete \<and> removeDataJobsComplete then
                        setCondition r
                          \<lparr>Type = ConditionIvyUpgradeSucceeded, Status = ConditionTrue,
                           ObservedGeneration = Generation u, LastTransitionTime = 0,
                           Reason = ''IvyUpgradeSucceeded'',
                           Message = ''IvoryCluster '' @ IvoryClusterName u
                             @ '' is ready to complete upgrade to version ''
                             @ Sprint_int (ToIvoryVersion u)\<rparr> u
                      else u)
             in return u Result_zero None [])
          else if \<not> ClusterShutdown world \<or> ClusterPrimary world = None then
            return (setCondition r (notProgressing u ''PGClusterNotShutdown''
                       ''IvoryCluster instances still running'') u)
              Result_zero None []
          else
          (let u = setStatusToProgressingIfReasonWas r ''PGClusterNotShutdown'' u in
           if version \<noteq> FromIvoryVersion u \<and> statusVersion \<noteq> ToIvoryVersion u then
             return (setCondition r (notProgressing u ''IvyUpgradeInvalidForCluster''
                        (''Current ivory version is '' @ Sprint_int version
                           @ '', but upgrade expected '' @ Sprint_int (FromIvoryVersion u))) u)
               Result_zero None []
           else
           (let u = setStatusToProgressingIfReasonWas r ''IvyUpgradeInvalidForCluster'' u;
                allowed = (index_map (Annotations (Cluster world)) AnnotationAllowUpgrade
                             = Name_upgrade u)
            in
            if \<not> allowed then
              return (setCondition r (notProgressing u ''PGClusterMissingRequiredAnnotation''
                         (''IvoryCluster '' @ IvoryClusterName u @ '' lacks annotation for upgrade ''
                            @ Name_upgrade u)) u)
                Result_zero None []
            else
            (let u = setStatusToProgressingIfReasonWas r ''PGClusterMissingRequiredAnnotation'' u in
             if upgradeJobFailed \<or> removeDataJobsFailed then
               return (setCondition r
                         \<lparr>Type = ConditionIvyUpgradeSucceeded, Status = ConditionFalse,
                          ObservedGeneration = Generation u, LastTransitionTime = 0,
                          Reason = ''IvyUpgradeFailed'',
                          Message = ''Upgrade jobs failed, please check individual pod logs''\<rparr> u)
                 Result_zero None []
             else driveUpgrade r u world upgradeJobComplete removeDataJobsComplete))))))"

text \<open>\<open>Reconcile\<close> from the test of the success condition, for an upgrade that was found.\<close>

definition reconcileUpgrade :: "client \<Rightarrow> IvyUpgrade \<Rightarrow> state" where
  "reconcileUpgrade r u =
     (let succeeded = FindStatusCondition (Conditions u) ConditionIvyUpgradeSucceeded in
      if (\<exists>s. succeeded = Some s \<and> Reason s = ''IvyUpgradeSucceeded'') then
        return u Result_zero None []
      else
      (let u = setStatusToProgressingIfReasonWas r [] u in
       if FromIvoryVersion u \<ge> ToIvoryVersion u then
         return (setCondition r (notProgressing u ''IvyUpgradeInvalid''
                    (''Cannot upgrade from ivory version '' @ Sprint_int (FromIvoryVersion u)
                       @ '' to '' @ Sprint_int (ToIvoryVersion u))) u)
           Result_zero None []
       else
       (let u = setStatusToProgressingIfReasonWas r ''IvyUpgradeInvalid'' u in
        case observeWorld r of
          Inl failure \<Rightarrow>
            return (setCondition r (notProgressing u ''PGClusterErrorWhenObservingWorld''
                       (Error_string failure)) u)
              Result_zero (Some failure) []
        | Inr world \<Rightarrow>
            reconcileWorld r (setStatusToProgressingIfReasonWas r ''PGClusterErrorWhenObservingWorld'' u)
              world)))"

text \<open>
  The deferred function: when the status differs from the copy taken at the start, it is
  patched, and a failure of the patch becomes the error of the call if there was none.
\<close>

definition patchStatusOnExit :: "client \<Rightarrow> IvyUpgrade \<Rightarrow> state \<Rightarrow> state" where
  "patchStatusOnExit r before st =
     (if Conditions before \<noteq> Conditions (s_upgrade st) then
        (let status = Patch_upgrade_status r in
         st\<lparr>s_err := (if s_err st = None \<and> status \<noteq> None then status else s_err st),
            s_effects := s_effects st @ [PatchUpgradeStatus (Conditions (s_upgrade st))]\<rparr>)
      else st)"

text \<open>
  The outcome of a call: the result, the error, the upgrade in memory at the end (none
  when \<open>Get\<close> failed) and the writes.
\<close>

record outcome =
  out_result :: Result
  out_err :: "error option"
  out_upgrade :: "IvyUpgrade option"
  out_effects :: "effect list"

definition Reconcile :: "client \<Rightarrow> outcome" where
  "Reconcile r =
     (case Get r of
        Inl failure \<Rightarrow>
          \<lparr>out_result = Result_zero, out_err = IgnoreNotFound (Some failure),
           out_upgrade = None, out_effects = []\<rparr>
      | Inr u \<Rightarrow>
          (let st = patchStatusOnExit r u (reconcileUpgrade r u) in
           \<lparr>out_result = s_result st, out_err = s_err st,
            out_upgrade = Some (s_upgrade st), out_effects = s_effects st\<rparr>))"

section \<open>internal/controller/postgrescluster/pgmonitor.go\<close>

text \<open>
  The SQL of the exporter is run by functions of the package \<open>pgmonitor\<close>, which are
  given an executor and call it. Such a function is kept as the script of its calls: it
  ends with a value, or calls the executor on an input and a command and goes on according
  to what the executor returns (its error, and what it wrote to stdout and stderr).
\<close>

type_synonym exec_result = "error option \<times> string \<times> string"

datatype 'a script =
    Done 'a
  | Exec string "string list" "exec_result \<Rightarrow> 'a script"

record ContainerStatus =
  Name_container :: string
  ImageID :: string

record Pod =
  Namespace_pod :: string
  Name_pod :: string
  ContainerStatuses :: "ContainerStatus list"

text \<open>An observed instance answers \<open>IsRunning\<close> with the pair \<open>(running, known)\<close>.\<close>

record Instance =
  IsRunning :: "string \<Rightarrow> bool \<times> bool"

text \<open>What \<open>writablePod\<close> returns: either pointer may be nil.\<close>

record observedInstances =
  writablePod :: "Pod option"
  writableInstance :: "Instance option"

record PostgresCluster =
  PostgresVersion :: int
  ExporterConfiguration :: string

text \<open>A call of \<open>PodExec\<close>.\<close>

record exec_call =
  call_namespace :: string
  call_pod :: string
  call_container :: string
  call_stdin :: string
  call_command :: "string list"

text \<open>
  What the function takes from outside the file: the functions of the package
  \<open>pgmonitor\<close> (the enabling script is given the database and the setup SQL, the monitoring
  secret being fixed), the names of the two containers, the digest of \<open>safeHash32\<close>, and
  the answers of \<open>PodExec\<close>, which may depend on the calls made before.
\<close>

record exporter_env =
  ExporterEnabled :: "PostgresCluster \<Rightarrow> bool"
  EnableExporterInPostgreSQL :: "string \<Rightarrow> string \<Rightarrow> error option script"
  DisableExporterInPostgreSQL :: "error option script"
  GetExporterSetupSQL :: "int \<Rightarrow> (string \<times> string \<times> error option) script"
  ContainerDatabase :: string
  ContainerPGMonitorExporter :: string
  digest :: "string \<Rightarrow> string"
  PodExec :: "exec_call list \<Rightarrow> exec_call \<Rightarrow> exec_result"

definition exporterDB :: string where
  "exporterDB = ''postgres''"

text \<open>\<open>fmt.Fprint\<close> of a slice of strings and two strings: no space is put next to a string.\<close>

fun joinSpace :: "string list \<Rightarrow> string" where
  "joinSpace [] = []"
| "joinSpace [x] = x"
| "joinSpace (x # y # rest) = x @ '' '' @ joinSpace (y # rest)"

definition Fprint_command :: "string list \<Rightarrow> string \<Rightarrow> string \<Rightarrow> string" where
  "Fprint_command command pgImageSHA exporterImageSHA =
     ''['' @ joinSpace command @ '']'' @ pgImageSHA @ exporterImageSHA"

text \<open>
  A script run with the executor that hashes: the input and the command, with the image
  identifiers, go to the hasher, nothing is executed and the executor returns nil.
\<close>

primrec hashScript :: "string \<Rightarrow> string \<Rightarrow> 'a script \<Rightarrow> string \<Rightarrow> 'a \<times> string" where
  "hashScript pgImageSHA exporterImageSHA (Done v) = (\<lambda>hasher. (v, hasher))"
| "hashScript pgImageSHA exporterImageSHA (Exec stdin command k) =
     (\<lambda>hasher. hashScript pgImageSHA exporterImageSHA (k (None, [], []))
        (hasher @ stdin @ Fprint_command command pgImageSHA exporterImageSHA))"

text \<open>A script run with \<open>PodExec\<close> in a container of a pod; the state is the calls made.\<close>

primrec podExecScript ::
  "exporter_env \<Rightarrow> Pod \<Rightarrow> string \<Rightarrow> 'a script \<Rightarrow> exec_call list \<Rightarrow> 'a \<times> exec_call list" where
  "podExecScript e pod container (Done v) = (\<lambda>calls. (v, calls))"
| "podExecScript e pod container (Exec stdin command k) =
     (\<lambda>calls.
        (let call = \<lparr>call_namespace = Namespace_pod pod, call_pod = Name_pod pod,
                     call_container = container, call_stdin = stdin,
                     call_command = command\<rparr>
         in podExecScript e pod container (k (PodExec e calls call)) (calls @ [call])))"

text \<open>
  \<open>safeHash32\<close> is defined in another file: it gives its writer to the content, returns
  the error of the content if any, and the digest of what was written otherwise.
\<close>

definition safeHash32 :: "exporter_env \<Rightarrow> (string \<Rightarrow> error option \<times> string) \<Rightarrow> error + string" where
  "safeHash32 e content =
     (case content [] of
        (Some failure, hasher) \<Rightarrow> Inl failure
      | (None, hasher) \<Rightarrow> Inr (digest e hasher))"

text \<open>The loop over the container statuses; its state is \<open>(exporterImageSHA, pgImageSHA)\<close>.\<close>

fun imageSHAs :: "exporter_env \<Rightarrow> ContainerStatus list \<Rightarrow> string \<times> string \<Rightarrow> string \<times> string" where
  "imageSHAs e [] st = st"
| "imageSHAs e (containerStatus # rest) (exporterImageSHA, pgImageSHA) =
     (let exporterImageSHA =
            (if Name_container containerStatus = ContainerPGMonitorExporter e
             then ImageID containerStatus else exporterImageSHA);
          pgImageSHA =
            (if Name_container containerStatus = ContainerDatabase e
             then ImageID containerStatus else pgImageSHA)
      in imageSHAs e rest (exporterImageSHA, pgImageSHA))"

text \<open>
  The first part of \<open>reconcilePGMonitorExporter\<close>, up to the comment \<open>PostgreSQL is
  available for writes\<close>: \<open>None\<close> is one of its early \<open>return nil\<close>, and otherwise it
  gives the writable pod and the two image identifiers (empty when the exporter is off).
\<close>

definition writableImages ::
  "exporter_env \<Rightarrow> PostgresCluster \<Rightarrow> observedInstances \<Rightarrow> (Pod \<times> string \<times> string) option" where
  "writableImages e cluster instances =
     (case (writablePod instances, writableInstance instances) of
        (Some pod, Some inst) \<Rightarrow>
          if ExporterEnabled e cluster then
            (let (running, known) = IsRunning inst (ContainerPGMonitorExporter e) in
             if \<not> running \<or> \<not> known then None
             else
               (let (exporterImageSHA, pgImageSHA) = imageSHAs e (ContainerStatuses pod) ([], [])
                in if exporterImageSHA = [] \<or> pgImageSHA = [] then None
                   else Some (pod, pgImageSHA, exporterImageSHA)))
          else Some (pod, [], [])
      | _ \<Rightarrow> None)"

text \<open>The action, for a value of the variable \<open>setup\<close> that its closure reads.\<close>

definition exporterAction :: "exporter_env \<Rightarrow> PostgresCluster \<Rightarrow> string \<Rightarrow> error option script" where
  "exporterAction e cluster setup =
     (if \<not> ExporterEnabled e cluster then DisableExporterInPostgreSQL e
      else EnableExporterInPostgreSQL e exporterDB setup)"

text \<open>The revision: the hash of the action, taken while \<open>setup\<close> is still empty.\<close>

definition exporterRevision ::
  "exporter_env \<Rightarrow> PostgresCluster \<Rightarrow> string \<Rightarrow> string \<Rightarrow> error + string" where
  "exporterRevision e cluster pgImageSHA exporterImageSHA =
     safeHash32 e (hashScript pgImageSHA exporterImageSHA (exporterAction e cluster []))"

text \<open>
  \<open>reconcilePGMonitorExporter\<close> returns its error; the model returns with it the cluster,
  whose status the function may write, and the calls of \<open>PodExec\<close> it made.
\<close>

definition reconcilePGMonitorExporter ::
  "exporter_env \<Rightarrow> PostgresCluster \<Rightarrow> observedInstances
     \<Rightarrow> error option \<times> PostgresCluster \<times> exec_call list" where
  "reconcilePGMonitorExporter e cluster instances =
     (case writableImages e cluster instances of
        None \<Rightarrow> (None, cluster, [])
      | Some (pod, pgImageSHA, exporterImageSHA) \<Rightarrow>
        (case exporterRevision e cluster pgImageSHA exporterImageSHA of
           Inl failure \<Rightarrow> (Some failure, cluster, [])
         | Inr revision \<Rightarrow>
             if revision \<noteq> ExporterConfiguration cluster then
               (let ((setup, err), calls) =
                      (if ExporterEnabled e cluster then
                         (case podExecScript e pod (ContainerPGMonitorExporter e)
                                 (GetExporterSetupSQL e (PostgresVersion cluster)) [] of
                            ((sql, stderr, failure), calls) \<Rightarrow> ((sql, failure), calls))
                       else (([], None), []));
                    (err, calls) =
                      (if err = None
                       then podExecScript e pod (ContainerDatabase e)
                              (exporterAction e cluster setup) calls
                       else (err, calls))
                in if err = None
                   then (err, cluster\<lparr>ExporterConfiguration := revision\<rparr>, calls)
                   else (err, cluster, calls))
             else (None, cluster, [])))"

subsection \<open>Vocabulary of the properties\<close>

text \<open>The values of a key in a section of a section set.\<close>

definition sectionKey :: "iniSectionSet \<Rightarrow> string \<Rightarrow> string \<Rightarrow> string list option" where
  "sectionKey sections section key =
     (case sections section of None \<Rightarrow> None | Some ms \<Rightarrow> ms key)"

text \<open>
  A schedule of visits is admissible when every \<open>range\<close> visits each entry of its map
  exactly once.
\<close>

definition permuting :: "(nat \<Rightarrow> entries \<Rightarrow> entries) \<Rightarrow> bool" where
  "permuting visit = (\<forall>i xs. mset (visit i xs) = mset xs)"

text \<open>The options written for one host, by the suffix of their keys.\<close>

definition hostSuffixes :: "string list" where
  "hostSuffixes = [''-host'', ''-host-type'', ''-host-ca-file'', ''-host-cert-file'',
     ''-host-key-file'', ''-path'', ''-port'', ''-socket-path'']"

definition hostOptions ::
  "constants \<Rightarrow> string \<Rightarrow> string \<Rightarrow> string \<Rightarrow> 32 word \<Rightarrow> string \<Rightarrow> entries" where
  "hostOptions c serviceName serviceNamespace pgdataDir pgPort pgHost =
     [(''-host'', pgHost @ ''-0.'' @ serviceName @ ''.'' @ serviceNamespace
         @ ''.svc.'' @ KubernetesClusterDomain c),
      (''-host-type'', ''tls''),
      (''-host-ca-file'', certAuthorityAbsolutePath c),
      (''-host-cert-file'', certClientAbsolutePath c),
      (''-host-key-file'', certClientPrivateKeyAbsolutePath c),
      (''-path'', pgdataDir),
      (''-port'', Sprint_int32 pgPort),
      (''-socket-path'', SocketDirectory c)]"

text \<open>Decimal digits, and the number a string of digits denotes.\<close>

definition isDigit :: "char \<Rightarrow> bool" where
  "isDigit ch = (48 \<le> (of_char ch :: nat) \<and> (of_char ch :: nat) \<le> 57)"

definition undecimal :: "string \<Rightarrow> nat" where
  "undecimal s = foldl (\<lambda>a ch. 10 * a + (of_char ch - 48)) 0 s"

text \<open>
  The log levels of pgBackRest, from the quietest. The tool writes a message to stderr
  when its level is within \<open>log-level-stderr\<close>, and otherwise to stdout when its level
  is within \<open>log-level-console\<close>; this is the reading the comment in \<open>serverConfig\<close>
  states (\<open>stderr has ERROR messages, stdout has WARN, INFO, and DETAIL messages\<close>).
\<close>

datatype logLevel = Off | Error | Warn | Info | Detail | Debug | Trace

fun rank :: "logLevel \<Rightarrow> nat" where
  "rank Off = 0"
| "rank Error = 1"
| "rank Warn = 2"
| "rank Info = 3"
| "rank Detail = 4"
| "rank Debug = 5"
| "rank Trace = 6"

definition parseLevel :: "string \<Rightarrow> logLevel option" where
  "parseLevel s =
     (if s = ''off'' then Some Off
      else if s = ''error'' then Some Error
      else if s = ''warn'' then Some Warn
      else if s = ''info'' then Some Info
      else if s = ''detail'' then Some Detail
      else if s = ''debug'' then Some Debug
      else if s = ''trace'' then Some Trace
      else None)"

definition levelOf :: "iniSectionSet \<Rightarrow> string \<Rightarrow> logLevel option" where
  "levelOf sections key =
     (case sectionKey sections ''global:server'' key of
        Some [v] \<Rightarrow> parseLevel v
      | _ \<Rightarrow> None)"

definition onStderr :: "iniSectionSet \<Rightarrow> logLevel \<Rightarrow> bool" where
  "onStderr sections msg =
     (case levelOf sections ''log-level-stderr'' of
        Some limit \<Rightarrow> msg \<noteq> Off \<and> rank msg \<le> rank limit
      | None \<Rightarrow> False)"

definition onStdout :: "iniSectionSet \<Rightarrow> logLevel \<Rightarrow> bool" where
  "onStdout sections msg =
     (case levelOf sections ''log-level-console'' of
        Some limit \<Rightarrow> msg \<noteq> Off \<and> rank msg \<le> rank limit \<and> \<not> onStderr sections msg
      | None \<Rightarrow> False)"

definition onStandardStreams :: "iniSectionSet \<Rightarrow> logLevel \<Rightarrow> bool" where
  "onStandardStreams sections msg = (onStderr sections msg \<or> onStdout sections msg)"

text \<open>The upgrade request carries the success condition that ends its reconciliation.\<close>

definition alreadySucceeded :: "IvyUpgrade \<Rightarrow> bool" where
  "alreadySucceeded u =
     (\<exists>s. FindStatusCondition (Conditions u) ConditionIvyUpgradeSucceeded = Some s
        \<and> Reason s = ''IvyUpgradeSucceeded'')"

text \<open>The \<open>Progressing\<close> condition of the request has the given status and reason.\<close>

definition progressingIs :: "IvyUpgrade \<Rightarrow> ConditionStatus \<Rightarrow> string \<Rightarrow> bool" where
  "progressingIs u status reason =
     (\<exists>p. FindStatusCondition (Conditions u) ConditionIvyUpgradeProgressing = Some p
        \<and> Status p = status \<and> Reason p = reason)"

text \<open>The writes that create a job: the upgrade job or a remove-data job.\<close>

fun createsJob :: "effect \<Rightarrow> bool" where
  "createsJob (ApplyUpgradeJob primary) = True"
| "createsJob (ApplyRemoveDataJob sts) = True"
| "createsJob (DeleteJob name) = False"
| "createsJob (DeleteEndpoints name) = False"
| "createsJob (PatchClusterStatus cluster) = False"
| "createsJob (PatchUpgradeStatus conditions) = False"

text \<open>The upgrade job of the request is among the observed jobs and has completed.\<close>

definition upgradeJobCompleted :: "client \<Rightarrow> IvyUpgrade \<Rightarrow> World \<Rightarrow> bool" where
  "upgradeJobCompleted r u world =
     (case map_of (Jobs world) (pgUpgradeJob_Name r (Name_upgrade u)) of
        None \<Rightarrow> False
      | Some job \<Rightarrow> jobCompleted job)"

text \<open>
  The only write of a call that ends at a gate: the patch of the status of the request,
  sent when the conditions have changed.
\<close>

definition statusPatchOnly :: "IvyUpgrade \<Rightarrow> IvyUpgrade \<Rightarrow> effect list" where
  "statusPatchOnly before after =
     (if Conditions before \<noteq> Conditions after then [PatchUpgradeStatus (Conditions after)]
      else [])"

text \<open>Requests, worlds and answers of the API for the examples.\<close>

definition exampleUpgrade :: "int \<Rightarrow> int \<Rightarrow> Condition list \<Rightarrow> IvyUpgrade" where
  "exampleUpgrade fromVersion toVersion conditions =
     \<lparr>Name_upgrade = ''hippo-upgrade'', Generation = 1, IvoryClusterName = ''hippo'',
      FromIvoryVersion = fromVersion, ToIvoryVersion = toVersion, Conditions = conditions\<rparr>"

definition exampleWorld :: "(string \<rightharpoonup> string) \<Rightarrow> int \<Rightarrow> int \<Rightarrow> bool \<Rightarrow> World" where
  "exampleWorld annotations version statusVersion shutdown =
     \<lparr>ClusterNotFound = None,
      Cluster = \<lparr>Annotations = annotations, Spec_PostgresVersion = version,
                 Status_PostgresVersion = statusVersion, Status_Repos = [''repo1'']\<rparr>,
      Jobs = [], ClusterShutdown = shutdown,
      ClusterPrimary = (if shutdown then Some ''hippo-instance1-abcd'' else None),
      ClusterReplicas = [], PatroniEndpoints = [], ReplicasExpected = 0\<rparr>"

definition exampleClient :: "IvyUpgrade \<Rightarrow> World \<Rightarrow> error option \<Rightarrow> client" where
  "exampleClient u world patchFailure =
     \<lparr>Get = Inr u, observeWorld = Inr world, apply_job = (\<lambda>job. None),
      Delete = (\<lambda>object. None), Patch_cluster_status = None,
      Patch_upgrade_status = patchFailure, now = 1700000000,
      pgUpgradeJob_Name = (\<lambda>name. name @ ''-pgdata''),
      LabelRole = ''ivory-operator.highgo.com/role'', removeData = ''removedata'',
      LabelPGBackRestBackup = ''ivory-operator.highgo.com/pgbackrest-backup'',
      ReplicaCreate = ''replica-create''\<rparr>"

definition succeededCondition :: Condition where
  "succeededCondition =
     \<lparr>Type = ''Succeeded'', Status = ConditionTrue, ObservedGeneration = 1,
      LastTransitionTime = 1600000000, Reason = ''IvyUpgradeSucceeded'',
      Message = ''IvoryCluster hippo is ready to complete upgrade to version 15''\<rparr>"

definition completedCondition :: Condition where
  "completedCondition =
     \<lparr>Type = ''Progressing'', Status = ConditionFalse, ObservedGeneration = 1,
      LastTransitionTime = 1600000000, Reason = ''IvyUpgradeCompleted'',
      Message = ''IvoryCluster hippo is running version 15''\<rparr>"

text \<open>
  The request and the world pass every gate of \<open>Reconcile\<close> that comes before the test
  of the allow-upgrade annotation (for a request with \<open>FromIvoryVersion < ToIvoryVersion\<close>
  whose world was observed).
\<close>

definition reachesAuthorizationGate :: "IvyUpgrade \<Rightarrow> World \<Rightarrow> bool" where
  "reachesAuthorizationGate u world =
     (\<not> alreadySucceeded u
      \<and> ClusterNotFound world = None
      \<and> Status_PostgresVersion (Cluster world) \<noteq> ToIvoryVersion u
      \<and> ClusterShutdown world \<and> ClusterPrimary world \<noteq> None
      \<and> Spec_PostgresVersion (Cluster world) = FromIvoryVersion u)"

text \<open>Values of the outside constants, for the examples.\<close>

definition exampleConstants :: constants where
  "exampleConstants =
     \<lparr>certAuthorityAbsolutePath = ''/etc/pgbackrest/conf.d/tls-ca.crt'',
      certClientAbsolutePath = ''/etc/pgbackrest/conf.d/client-tls.crt'',
      certClientPrivateKeyAbsolutePath = ''/etc/pgbackrest/conf.d/client-tls.key'',
      certServerAbsolutePath = ''/etc/pgbackrest/server/server-tls.crt'',
      certServerPrivateKeyAbsolutePath = ''/etc/pgbackrest/server/server-tls.key'',
      PGBackRestPGDataLogPath = ''/pgdata/pgbackrest/log'',
      PGBackRestRepoLogPath = (\<lambda>name. ''/pgbackrest/'' @ name @ ''/log''),
      SocketDirectory = ''/tmp/ivory'',
      KubernetesClusterDomain = ''cluster.local.'',
      PGBackRestIPVersion = ''ivory-operator.highgo.com/pgbackrest-ip-version''\<rparr>"

definition exampleS3 :: "string \<Rightarrow> PGBackRestRepo" where
  "exampleS3 name =
     \<lparr>Name = name, Volume = None, Azure = None, GCS = None,
      S3 = Some \<lparr>Bucket_s3 = ''bucket'', Endpoint = ''s3.example.com'', Region = ''eu-west-1''\<rparr>\<rparr>"

definition exampleVolume :: "string \<Rightarrow> PGBackRestRepo" where
  "exampleVolume name =
     \<lparr>Name = name, Volume = Some RepoPVC, Azure = None, GCS = None, S3 = None\<rparr>"

text \<open>An environment of the exporter and observed instances for the examples.\<close>

definition exampleExporterEnv :: exporter_env where
  "exampleExporterEnv =
     \<lparr>ExporterEnabled = (\<lambda>cluster. False),
      EnableExporterInPostgreSQL = (\<lambda>db setup. Exec setup [''psql'', db] (\<lambda>res. Done (fst res))),
      DisableExporterInPostgreSQL = Exec ''DROP ROLE ccp_monitoring;'' [''psql''] (\<lambda>res. Done (fst res)),
      GetExporterSetupSQL = (\<lambda>version. Exec [] [''cat'', ''setup.sql'']
         (\<lambda>res. Done (fst (snd res), snd (snd res), fst res))),
      ContainerDatabase = ''database'', ContainerPGMonitorExporter = ''exporter'',
      digest = (\<lambda>bytes. bytes),
      PodExec = (\<lambda>calls call. (None, [], []))\<rparr>"

definition exampleInstances :: observedInstances where
  "exampleInstances =
     \<lparr>writablePod = Some \<lparr>Namespace_pod = ''ns'', Name_pod = ''hippo-instance1-abcd-0'',
                           ContainerStatuses = []\<rparr>,
      writableInstance = Some \<lparr>IsRunning = (\<lambda>container. (True, True))\<rparr>\<rparr>"

section \<open>Verification\<close>

subsection \<open>Properties of huge_pages.go\<close>

lemma hugePagesInLimits_iff:
  "hugePagesInLimits limits todo =
     (\<exists>name \<in> fst ` set todo. \<exists>q. map_of limits name = Some q
        \<and> HasPrefix name ResourceHugePagesPrefix \<and> 0 < sint (Value q))"
proof (induction todo)
  case Nil
  show ?case by simp
next
  case (Cons entry todo)
  obtain name v where entry: "entry = (name, v)" by (cases entry)
  show ?case
  proof (cases "map_of limits name")
    case None
    with Cons entry show ?thesis
      by (auto simp: Name_rl_def)
  next
    case (Some q)
    with Cons entry show ?thesis
      by (auto simp: Name_rl_def word_sless_alt)
  qed
qed

lemma hugePagesInLimits_self:
  "hugePagesInLimits (Limits instance) (Limits instance) = hugePagesLimit instance"
proof -
  have "map_of (Limits instance) name = Some q \<Longrightarrow> name \<in> fst ` set (Limits instance)"
    for name q
    by (metis map_of_eq_None_iff option.distinct(1))
  then show ?thesis
    unfolding hugePagesInLimits_iff hugePagesLimit_def by blast
qed

lemma hugePagesInInstances_iff:
  "hugePagesInInstances instances = (\<exists>instance \<in> set instances. hugePagesLimit instance)"
  by (induction instances) (simp_all add: hugePagesInLimits_self)

text \<open>
  C10. \<open>SetHugePages\<close> leaves the mandatory parameters alone and makes exactly one
  \<open>Add\<close> to the default parameter set, of the name \<open>huge_pages\<close>: with the value
  \<open>try\<close> if and only if some instance set has a limit whose name starts with the
  huge-pages prefix and whose quantity is strictly greater than zero, and with the value
  \<open>off\<close> otherwise.
\<close>

theorem SetHugePages_value:
  "SetHugePages Add cluster pgParameters =
     pgParameters\<lparr>Default :=
       Add ''huge_pages''
         (if \<exists>instance \<in> set (InstanceSets cluster). hugePagesLimit instance
          then ''try'' else ''off'')
         (Default pgParameters)\<rparr>"
  by (simp add: SetHugePages_def hugePagesRequested_def hugePagesInInstances_iff)

theorem SetHugePages_value_witness:
  "SetHugePages (\<lambda>name v ps. ps(name \<mapsto> v))
     \<lparr>InstanceSets = [\<lparr>Limits = [(''cpu'', \<lparr>Value = 2\<rparr>)]\<rparr>,
                      \<lparr>Limits = [(''hugepages-2Mi'', \<lparr>Value = 16\<rparr>)]\<rparr>]\<rparr>
     \<lparr>Mandatory = Map.empty, Default = Map.empty\<rparr>
   = \<lparr>Mandatory = Map.empty, Default = [''huge_pages'' \<mapsto> ''try'']\<rparr>
   \<and>
   SetHugePages (\<lambda>name v ps. ps(name \<mapsto> v))
     \<lparr>InstanceSets = [\<lparr>Limits = [(''hugepages-2Mi'', \<lparr>Value = 0\<rparr>)]\<rparr>]\<rparr>
     \<lparr>Mandatory = Map.empty, Default = Map.empty\<rparr>
   = \<lparr>Mandatory = Map.empty, Default = [''huge_pages'' \<mapsto> ''off'']\<rparr>"
proof -
  have yes: "hugePagesLimit \<lparr>Limits = [(''hugepages-2Mi'', \<lparr>Value = 16\<rparr>)]\<rparr>"
    unfolding hugePagesLimit_def
    by (rule exI [of _ "''hugepages-2Mi''"], rule exI [of _ "\<lparr>Value = 16\<rparr>"])
       (simp add: HasPrefix_def ResourceHugePagesPrefix_def)
  have no: "\<not> hugePagesLimit \<lparr>Limits = [(''hugepages-2Mi'', \<lparr>Value = 0\<rparr>)]\<rparr>"
    by (auto simp: hugePagesLimit_def split: if_splits)
  show ?thesis
    using yes no
      SetHugePages_value [of "\<lambda>name v ps. ps(name \<mapsto> v)"
        "\<lparr>InstanceSets = [\<lparr>Limits = [(''cpu'', \<lparr>Value = 2\<rparr>)]\<rparr>,
                         \<lparr>Limits = [(''hugepages-2Mi'', \<lparr>Value = 16\<rparr>)]\<rparr>]\<rparr>"
        "\<lparr>Mandatory = Map.empty, Default = Map.empty\<rparr>"]
      SetHugePages_value [of "\<lambda>name v ps. ps(name \<mapsto> v)"
        "\<lparr>InstanceSets = [\<lparr>Limits = [(''hugepages-2Mi'', \<lparr>Value = 0\<rparr>)]\<rparr>]\<rparr>"
        "\<lparr>Mandatory = Map.empty, Default = Map.empty\<rparr>"]
    by simp
qed

subsection \<open>Properties of config.go\<close>

lemma range_set_apply:
  "range_set xs m k = (case map_of (rev xs) k of None \<Rightarrow> m k | Some v \<Rightarrow> Some [v])"
proof (induction xs arbitrary: m)
  case Nil
  show ?case by simp
next
  case (Cons x xs)
  obtain a b where x: "x = (a, b)" by (cases x)
  show ?case
    by (simp add: x Cons Set_ini_def map_add_def split: option.splits)
qed

lemma map_of_perm:
  assumes "distinct (map fst xs)" and "mset ys = mset xs"
  shows "map_of ys = map_of xs"
proof -
  from assms(2) have "mset (map fst ys) = mset (map fst xs)" by (metis mset_map)
  with assms(1) have dy: "distinct (map fst ys)" by (metis mset_eq_imp_distinct_iff)
  from assms(2) have "set ys = set xs" by (rule mset_eq_setD)
  with assms(1) dy show ?thesis by (metis map_of_inject_set)
qed

lemma range_set_perm:
  assumes "distinct (map fst xs)" and "mset ys = mset xs"
  shows "range_set ys m = range_set xs m"
proof
  fix k
  have dr: "distinct (map fst (rev xs))" using assms(1) by (simp add: rev_map [symmetric])
  have "mset (rev ys) = mset (rev xs)" using assms(2) by simp
  with dr have "map_of (rev ys) = map_of (rev xs)" by (rule map_of_perm)
  then show "range_set ys m k = range_set xs m k" by (simp add: range_set_apply)
qed

lemma getExternalRepoConfigs_distinct: "distinct (map fst (getExternalRepoConfigs repo))"
  by (simp add: getExternalRepoConfigs_def split: option.splits)

lemma range_set_frame: "k \<notin> fst ` set xs \<Longrightarrow> range_set xs m k = m k"
  by (induction xs arbitrary: m) (auto simp: Set_ini_def)

lemma range_set_visit:
  "permuting visit \<Longrightarrow>
     range_set (visit i (getExternalRepoConfigs repo)) m
       = range_set (getExternalRepoConfigs repo) m"
  by (rule range_set_perm) (simp_all add: permuting_def getExternalRepoConfigs_distinct)

lemma instanceRepos_visit:
  "permuting visit \<Longrightarrow>
     instanceRepos c visit h f i repos g = instanceRepos c (\<lambda>_ xs. xs) h f i repos g"
proof (induction repos arbitrary: i g)
  case Nil
  show ?case by simp
next
  case (Cons repo repos)
  note v = range_set_visit [OF Cons.prems, of i repo]
  show ?case
    by (simp only: instanceRepos.simps Let_def v Cons.IH [OF Cons.prems])
qed

lemma repoHostRepos_visit:
  "permuting visit \<Longrightarrow>
     repoHostRepos c visit i repos st = repoHostRepos c (\<lambda>_ xs. xs) i repos st"
proof (induction repos arbitrary: i st)
  case Nil
  show ?case by simp
next
  case (Cons repo repos)
  obtain g flag where st: "st = (g, flag)" by (cases st)
  note v = range_set_visit [OF Cons.prems, of i repo]
  show ?case
    unfolding st
    by (simp only: repoHostRepos.simps Let_def v Cons.IH [OF Cons.prems])
qed

lemma range_set_same_map:
  assumes "distinct (map fst gc)" and "distinct (map fst gc')" and "set gc = set gc'"
  shows "range_set gc m = range_set gc' m"
proof -
  from assms have "mset gc = mset gc'"
    by (metis distinct_map set_eq_iff_mset_eq_distinct)
  with assms(2) show ?thesis by (rule range_set_perm)
qed


lemma of_char_digit: "d < 10 \<Longrightarrow> (of_char (digit d) :: nat) = 48 + d"
  by (simp add: digit_def)

lemma decimal_isDigit: "\<forall>ch \<in> set (decimal n). isDigit ch"
proof (induction n rule: decimal.induct)
  case (1 n)
  show ?case
  proof (cases "n < 10")
    case True
    then show ?thesis
      by (subst decimal.simps) (simp add: isDigit_def of_char_digit)
  next
    case False
    have "n mod 10 < 10" by simp
    then have "isDigit (digit (n mod 10))"
      by (simp add: isDigit_def of_char_digit)
    with False 1 show ?thesis
      by (subst decimal.simps) simp
  qed
qed

lemma undecimal_decimal: "undecimal (decimal n) = n"
proof (induction n rule: decimal.induct)
  case (1 n)
  show ?case
  proof (cases "n < 10")
    case True
    then show ?thesis
      by (subst decimal.simps) (simp add: undecimal_def of_char_digit)
  next
    case False
    have "n mod 10 < 10" by simp
    then have d: "(of_char (digit (n mod 10)) :: nat) = 48 + n mod 10"
      by (rule of_char_digit)
    from False 1 have "undecimal (decimal (n div 10)) = n div 10" by simp
    with False d show ?thesis
      by (subst decimal.simps) (simp add: undecimal_def)
  qed
qed

lemma decimal_inject: "decimal a = decimal b \<Longrightarrow> a = b"
  by (metis undecimal_decimal)

lemma pgKey_inject:
  "pgKey a (CHR ''-'' # s) = pgKey b (CHR ''-'' # t) \<longleftrightarrow> a = b \<and> s = t"
proof
  assume k: "pgKey a (CHR ''-'' # s) = pgKey b (CHR ''-'' # t)"
  have nd: "\<not> isDigit CHR ''-''" by (simp add: isDigit_def)
  have tw: "takeWhile isDigit (decimal n @ CHR ''-'' # u) = decimal n" for n u
    using decimal_isDigit [of n] nd by (simp add: takeWhile_append2)
  from k have eq: "decimal a @ CHR ''-'' # s = decimal b @ CHR ''-'' # t"
    by (simp add: pgKey_def)
  then have "takeWhile isDigit (decimal a @ CHR ''-'' # s)
      = takeWhile isDigit (decimal b @ CHR ''-'' # t)" by simp
  then have "decimal a = decimal b" by (simp only: tw)
  with eq show "a = b \<and> s = t" by (simp add: decimal_inject)
qed simp

lemma repoHostHosts_frame:
  "(\<And>n sfx. i < n \<Longrightarrow> sfx \<in> set hostSuffixes \<Longrightarrow> k \<noteq> pgKey n sfx) \<Longrightarrow>
     repoHostHosts c sn ns dir port i hosts stanza k = stanza k"
proof (induction hosts arbitrary: i stanza)
  case Nil
  show ?case by simp
next
  case (Cons h hosts)
  have later: "repoHostHosts c sn ns dir port (Suc i) hosts st k = st k" for st
    by (rule Cons.IH) (simp add: Cons.prems)
  have here: "k \<noteq> pgKey (i + 1) sfx" if "sfx \<in> set hostSuffixes" for sfx
    using Cons.prems [of "i + 1" sfx] that by simp
  show ?case
    using here by (simp add: Let_def later Set_ini_def hostSuffixes_def)
qed

lemma repoHostHosts_value:
  "j < length hosts \<Longrightarrow> (sfx, v) \<in> set (hostOptions c sn ns dir port (hosts ! j)) \<Longrightarrow>
     repoHostHosts c sn ns dir port i hosts stanza (pgKey (i + j + 1) sfx) = Some [v]"
proof (induction hosts arbitrary: i j stanza)
  case Nil
  then show ?case by simp
next
  case (Cons h hosts)
  show ?case
  proof (cases j)
    case 0
    from Cons.prems(2) have sfx: "sfx \<in> set hostSuffixes"
      by (auto simp: hostOptions_def hostSuffixes_def)
    have "repoHostHosts c sn ns dir port (Suc i) hosts st (pgKey (i + 1) sfx)
        = st (pgKey (i + 1) sfx)" for st
      using sfx by (intro repoHostHosts_frame) (auto simp: hostSuffixes_def pgKey_inject)
    moreover from Cons.prems(2) 0
    have "(sfx, v) \<in> set (hostOptions c sn ns dir port h)" by simp
    ultimately show ?thesis
      using 0 by (auto simp: Let_def Set_ini_def hostOptions_def pgKey_inject)
  next
    case (Suc j')
    with Cons.prems have "j' < length hosts"
      and "(sfx, v) \<in> set (hostOptions c sn ns dir port (hosts ! j'))" by simp_all
    then have step: "repoHostHosts c sn ns dir port (Suc i) hosts st (pgKey (Suc i + j' + 1) sfx)
        = Some [v]" for st
      by (rule Cons.IH)
    have eq: "i + j + 1 = Suc i + j' + 1" using Suc by simp
    show ?thesis
      by (simp only: eq repoHostHosts.simps Let_def step)
  qed
qed

lemma dom_Set_ini: "dom (Set_ini key v m) = insert key (dom m)"
  by (simp add: Set_ini_def)

lemma repoHostHosts_dom:
  "dom (repoHostHosts c sn ns dir port i hosts stanza)
     = dom stanza \<union> (\<Union>n \<in> {i<..i + length hosts}. (pgKey n) ` set hostSuffixes)"
proof (induction hosts arbitrary: i stanza)
  case Nil
  show ?case by simp
next
  case (Cons h hosts)
  have range: "{i<..i + length (h # hosts)} = insert (Suc i) {Suc i<..Suc i + length hosts}"
    by auto
  have head: "pgKey (i + 1) ` set hostSuffixes
      = {pgKey (i + 1) ''-host'', pgKey (i + 1) ''-host-type'', pgKey (i + 1) ''-host-ca-file'',
         pgKey (i + 1) ''-host-cert-file'', pgKey (i + 1) ''-host-key-file'',
         pgKey (i + 1) ''-path'', pgKey (i + 1) ''-port'', pgKey (i + 1) ''-socket-path''}"
    by (simp only: hostSuffixes_def list.set image_insert image_empty)
  have "dom (repoHostHosts c sn ns dir port i (h # hosts) stanza)
      = (dom stanza \<union> pgKey (i + 1) ` set hostSuffixes)
          \<union> (\<Union>n \<in> {Suc i<..Suc i + length hosts}. (pgKey n) ` set hostSuffixes)"
    unfolding head repoHostHosts.simps Let_def Cons.IH dom_Set_ini
    by blast
  also have "\<dots> = dom stanza \<union> (\<Union>n \<in> {i<..i + length (h # hosts)}. (pgKey n) ` set hostSuffixes)"
    unfolding range by auto
  finally show ?case .
qed

lemma Set_ini_other: "k \<noteq> key \<Longrightarrow> Set_ini key v m k = m k"
  by (simp add: Set_ini_def)

lemma Set_ini_same: "Set_ini key v m key = Some [v]"
  by (simp add: Set_ini_def)

lemma path_key_log: "name @ ''-path'' = ''log-path'' \<longleftrightarrow> name = ''log''"
proof -
  have "''log-path'' = ''log'' @ ''-path''" by simp
  then show ?thesis by (simp only: append_same_eq)
qed

lemma external_keys_not_log_path:
  "''log-path'' \<notin> fst ` set (getExternalRepoConfigs repo)"
proof -
  have l: "last ''log-path'' = CHR ''h''" by simp
  have "name @ sfx \<noteq> ''log-path''" if "sfx \<noteq> []" "last sfx \<noteq> CHR ''h''" for name sfx :: string
  proof
    assume "name @ sfx = ''log-path''"
    then have "last (name @ sfx) = last ''log-path''" by (rule arg_cong)
    with that show False by simp
  qed
  then have
    "Name repo @ ''-type'' \<noteq> ''log-path''"
    "Name repo @ ''-azure-container'' \<noteq> ''log-path''"
    "Name repo @ ''-gcs-bucket'' \<noteq> ''log-path''"
    "Name repo @ ''-s3-bucket'' \<noteq> ''log-path''"
    "Name repo @ ''-s3-endpoint'' \<noteq> ''log-path''"
    "Name repo @ ''-s3-region'' \<noteq> ''log-path''"
    by simp_all
  then show ?thesis
    by (auto simp: getExternalRepoConfigs_def split: option.splits)
qed

lemma range_external_log_path:
  assumes "permuting visit"
  shows "range_set (visit i (getExternalRepoConfigs repo)) m ''log-path'' = m ''log-path''"
proof -
  from assms have "set (visit i (getExternalRepoConfigs repo)) = set (getExternalRepoConfigs repo)"
    unfolding permuting_def by (metis mset_eq_setD)
  then show ?thesis
    by (intro range_set_frame) (simp add: external_keys_not_log_path)
qed

lemma repoHostRepos_log_path:
  assumes "permuting visit" and "\<forall>repo \<in> set repos. Name repo \<noteq> ''log''"
  shows "fst (repoHostRepos c visit i repos (global, pgBackRestLogPathSet)) ''log-path''
    = (if pgBackRestLogPathSet then global ''log-path''
       else case find (\<lambda>repo. Volume repo \<noteq> None) repos of
              None \<Rightarrow> global ''log-path''
            | Some repo \<Rightarrow> Some [PGBackRestRepoLogPath c (Name repo)])"
  using assms(2)
proof (induction repos arbitrary: i global pgBackRestLogPathSet)
  case Nil
  show ?case by simp
next
  case (Cons repo repos)
  from Cons.prems have name: "''log-path'' \<noteq> Name repo @ ''-path''"
    and rest: "\<forall>repo \<in> set repos. Name repo \<noteq> ''log''"
    using path_key_log [of "Name repo"] by auto
  note ext = range_external_log_path [OF assms(1), of i repo]
  note IH = Cons.IH [OF rest]
  show ?case
    by (simp add: Let_def IH ext Set_ini_other [OF name] Set_ini_same split: option.splits)
qed

text \<open>
  C5. Configuration synthesis is deterministic. Go leaves open the order in which a
  \<open>range\<close> visits the global override map and the external configuration of a
  repository; whatever the orders of two runs on the same inputs (the same repository
  list, the same override map, hosts, service, data directory and port), the instance-role
  and the repo-host-role builders return the same section sets, so that any serialisation
  \<open>String\<close> of them, and any hash of it, is the same in both runs.
\<close>

theorem config_synthesis_deterministic:
  assumes "permuting visit" and "permuting visit'"
    and "distinct (map fst globalConfig)" and "distinct (map fst globalConfig')"
    and "set globalConfig = set globalConfig'"
  shows
    "populatePGInstanceConfigurationMap c visit serviceName serviceNamespace repoHostName
         pgdataDir pgPort repos globalConfig
       = populatePGInstanceConfigurationMap c visit' serviceName serviceNamespace repoHostName
           pgdataDir pgPort repos globalConfig'
     \<and> populateRepoHostConfigurationMap c visit serviceName serviceNamespace
           pgdataDir pgPort pgHosts repos globalConfig
       = populateRepoHostConfigurationMap c visit' serviceName serviceNamespace
           pgdataDir pgPort pgHosts repos globalConfig'
     \<and> hash (String (populatePGInstanceConfigurationMap c visit serviceName serviceNamespace
           repoHostName pgdataDir pgPort repos globalConfig))
       = hash (String (populatePGInstanceConfigurationMap c visit' serviceName serviceNamespace
           repoHostName pgdataDir pgPort repos globalConfig'))
     \<and> hash (String (populateRepoHostConfigurationMap c visit serviceName serviceNamespace
           pgdataDir pgPort pgHosts repos globalConfig))
       = hash (String (populateRepoHostConfigurationMap c visit' serviceName serviceNamespace
           pgdataDir pgPort pgHosts repos globalConfig'))"
proof -
  note g = range_set_same_map [OF assms(3-5)]
  have inst: "populatePGInstanceConfigurationMap c visit serviceName serviceNamespace repoHostName
         pgdataDir pgPort repos globalConfig
       = populatePGInstanceConfigurationMap c visit' serviceName serviceNamespace repoHostName
           pgdataDir pgPort repos globalConfig'"
    unfolding populatePGInstanceConfigurationMap_def Let_def
    by (simp only: instanceRepos_visit [OF assms(1)] instanceRepos_visit [OF assms(2)] g)
  have host: "populateRepoHostConfigurationMap c visit serviceName serviceNamespace
           pgdataDir pgPort pgHosts repos globalConfig
       = populateRepoHostConfigurationMap c visit' serviceName serviceNamespace
           pgdataDir pgPort pgHosts repos globalConfig'"
    unfolding populateRepoHostConfigurationMap_def Let_def
    by (simp only: repoHostRepos_visit [OF assms(1)] repoHostRepos_visit [OF assms(2)] g)
  show ?thesis
    by (simp only: inst host)
qed

theorem config_synthesis_deterministic_witness:
  "permuting (\<lambda>i xs. xs) \<and> permuting (\<lambda>i. rev)
   \<and> populatePGInstanceConfigurationMap exampleConstants (\<lambda>i xs. xs) ''svc'' ''ns'' ''repo-host''
         ''/pgdata/pg15'' 5432 [exampleS3 ''repo1'', exampleVolume ''repo2'']
         [(''archive-async'', ''y''), (''repo1-retention-full'', ''2'')]
     = populatePGInstanceConfigurationMap exampleConstants (\<lambda>i. rev) ''svc'' ''ns'' ''repo-host''
         ''/pgdata/pg15'' 5432 [exampleS3 ''repo1'', exampleVolume ''repo2'']
         [(''repo1-retention-full'', ''2''), (''archive-async'', ''y'')]
   \<and> populateRepoHostConfigurationMap exampleConstants (\<lambda>i xs. xs) ''svc'' ''ns''
         ''/pgdata/pg15'' 5432 [''hippo-a'', ''hippo-b''] [exampleS3 ''repo1'', exampleVolume ''repo2'']
         [(''archive-async'', ''y''), (''repo1-retention-full'', ''2'')]
     = populateRepoHostConfigurationMap exampleConstants (\<lambda>i. rev) ''svc'' ''ns''
         ''/pgdata/pg15'' 5432 [''hippo-a'', ''hippo-b''] [exampleS3 ''repo1'', exampleVolume ''repo2'']
         [(''repo1-retention-full'', ''2''), (''archive-async'', ''y'')]"
proof -
  have p1: "permuting (\<lambda>i xs. xs)" and p2: "permuting (\<lambda>i. rev)"
    by (simp_all add: permuting_def)
  have d1: "distinct (map fst [(''archive-async'', ''y''), (''repo1-retention-full'', ''2'')])"
    and d2: "distinct (map fst [(''repo1-retention-full'', ''2''), (''archive-async'', ''y'')])"
    and s: "set [(''archive-async'', ''y''), (''repo1-retention-full'', ''2'')]
        = set [(''repo1-retention-full'', ''2''), (''archive-async'', ''y'')]"
    by auto
  show ?thesis
    using p1 p2 config_synthesis_deterministic [OF p1 p2 d1 d2 s]
    by blast
qed

lemma stanza_not_global: "DefaultStanzaName \<noteq> ''global''"
  by (simp add: DefaultStanzaName_def)

lemma pgKey_examples:
  "pgKey (Suc 0) ''-host'' = ''pg1-host''" "pgKey (Suc (Suc 0)) ''-host'' = ''pg2-host''"
  "pgKey 3 ''-host'' = ''pg3-host''" "pgKey (Suc (Suc 0)) ''-port'' = ''pg2-port''"
  by code_simp+

lemma Sprint_5432: "Sprint_int32 5432 = ''5432''"
  by code_simp

text \<open>
  C6. In instance-role synthesis the stanza section is exactly the three options
  \<open>pg1-path\<close>, \<open>pg1-port\<close> and \<open>pg1-socket-path\<close> of the local database,
  whatever the repository list; in repo-host-role synthesis the keys of the stanza section
  are exactly the host options with the indices \<open>1..N\<close>, \<open>N\<close> the length of the host
  list, and the options with index \<open>j + 1\<close> are those of the \<open>j\<close>-th host of the list.
\<close>

theorem stanza_indices:
  "populatePGInstanceConfigurationMap c visit serviceName serviceNamespace repoHostName
       pgdataDir pgPort repos globalConfig DefaultStanzaName
     = Some [''pg1-path'' \<mapsto> [pgdataDir], ''pg1-port'' \<mapsto> [Sprint_int32 pgPort],
             ''pg1-socket-path'' \<mapsto> [SocketDirectory c]]
   \<and> (\<exists>stanza.
        populateRepoHostConfigurationMap c visit serviceName serviceNamespace
            pgdataDir pgPort pgHosts repos globalConfig DefaultStanzaName = Some stanza
        \<and> dom stanza
            = {pgKey n sfx | n sfx. 1 \<le> n \<and> n \<le> length pgHosts \<and> sfx \<in> set hostSuffixes}
        \<and> (\<forall>j < length pgHosts.
              \<forall>(sfx, v) \<in> set (hostOptions c serviceName serviceNamespace pgdataDir pgPort
                                  (pgHosts ! j)).
                stanza (pgKey (j + 1) sfx) = Some [v]))"
proof (intro conjI)
  show "populatePGInstanceConfigurationMap c visit serviceName serviceNamespace repoHostName
       pgdataDir pgPort repos globalConfig DefaultStanzaName
     = Some [''pg1-path'' \<mapsto> [pgdataDir], ''pg1-port'' \<mapsto> [Sprint_int32 pgPort],
             ''pg1-socket-path'' \<mapsto> [SocketDirectory c]]"
    by (simp add: populatePGInstanceConfigurationMap_def Let_def Set_ini_def)
next
  let ?stanza = "repoHostHosts c serviceName serviceNamespace pgdataDir pgPort 0 pgHosts Map.empty"
  have sec: "populateRepoHostConfigurationMap c visit serviceName serviceNamespace
            pgdataDir pgPort pgHosts repos globalConfig DefaultStanzaName = Some ?stanza"
    by (simp add: populateRepoHostConfigurationMap_def Let_def split: prod.splits)
  have "(\<Union>n \<in> {0<..0 + length pgHosts}. pgKey n ` set hostSuffixes)
      = {pgKey n sfx | n sfx. 1 \<le> n \<and> n \<le> length pgHosts \<and> sfx \<in> set hostSuffixes}"
    by (auto simp: Suc_le_eq) blast
  then have d: "dom ?stanza
      = {pgKey n sfx | n sfx. 1 \<le> n \<and> n \<le> length pgHosts \<and> sfx \<in> set hostSuffixes}"
    by (simp only: repoHostHosts_dom dom_empty Un_empty_left)
  have v: "\<forall>j < length pgHosts.
      \<forall>(sfx, v) \<in> set (hostOptions c serviceName serviceNamespace pgdataDir pgPort (pgHosts ! j)).
        ?stanza (pgKey (j + 1) sfx) = Some [v]"
    using repoHostHosts_value [of _ pgHosts _ _ c serviceName serviceNamespace pgdataDir pgPort 0]
    by auto
  from sec d v show "\<exists>stanza.
        populateRepoHostConfigurationMap c visit serviceName serviceNamespace
            pgdataDir pgPort pgHosts repos globalConfig DefaultStanzaName = Some stanza
        \<and> dom stanza
            = {pgKey n sfx | n sfx. 1 \<le> n \<and> n \<le> length pgHosts \<and> sfx \<in> set hostSuffixes}
        \<and> (\<forall>j < length pgHosts.
              \<forall>(sfx, v) \<in> set (hostOptions c serviceName serviceNamespace pgdataDir pgPort
                                  (pgHosts ! j)).
                stanza (pgKey (j + 1) sfx) = Some [v])"
    by blast
qed

theorem stanza_indices_witness:
  "populatePGInstanceConfigurationMap exampleConstants (\<lambda>i xs. xs) ''svc'' ''ns'' ''repo-host''
       ''/pgdata/pg15'' 5432 [exampleVolume ''repo2'', exampleS3 ''repo1''] [] DefaultStanzaName
     = Some [''pg1-path'' \<mapsto> [''/pgdata/pg15''], ''pg1-port'' \<mapsto> [''5432''],
             ''pg1-socket-path'' \<mapsto> [''/tmp/ivory'']]
   \<and> (\<exists>stanza.
        populateRepoHostConfigurationMap exampleConstants (\<lambda>i xs. xs) ''svc'' ''ns''
            ''/pgdata/pg15'' 5432 [''hippo-a'', ''hippo-b''] [] [] DefaultStanzaName = Some stanza
        \<and> stanza ''pg1-host'' = Some [''hippo-a-0.svc.ns.svc.cluster.local.'']
        \<and> stanza ''pg2-host'' = Some [''hippo-b-0.svc.ns.svc.cluster.local.'']
        \<and> stanza ''pg2-port'' = Some [''5432'']
        \<and> ''pg3-host'' \<notin> dom stanza)"
proof -
  note t = stanza_indices [of exampleConstants "\<lambda>i xs. xs" "''svc''" "''ns''" "''repo-host''"
      "''/pgdata/pg15''" 5432 "[exampleVolume ''repo2'', exampleS3 ''repo1'']" "[]"
      "[''hippo-a'', ''hippo-b'']"]
  from t have a: "populatePGInstanceConfigurationMap exampleConstants (\<lambda>i xs. xs) ''svc'' ''ns''
       ''repo-host'' ''/pgdata/pg15'' 5432 [exampleVolume ''repo2'', exampleS3 ''repo1''] []
       DefaultStanzaName
     = Some [''pg1-path'' \<mapsto> [''/pgdata/pg15''], ''pg1-port'' \<mapsto> [''5432''],
             ''pg1-socket-path'' \<mapsto> [''/tmp/ivory'']]"
    by (simp add: Sprint_5432 exampleConstants_def)
  from stanza_indices [of exampleConstants "\<lambda>i xs. xs" "''svc''" "''ns''" "''repo-host''"
      "''/pgdata/pg15''" 5432 "[]" "[]" "[''hippo-a'', ''hippo-b'']"]
  obtain stanza where
    sec: "populateRepoHostConfigurationMap exampleConstants (\<lambda>i xs. xs) ''svc'' ''ns''
            ''/pgdata/pg15'' 5432 [''hippo-a'', ''hippo-b''] [] [] DefaultStanzaName = Some stanza"
    and d: "dom stanza
            = {pgKey n sfx | n sfx. 1 \<le> n \<and> n \<le> length [''hippo-a'', ''hippo-b'']
                 \<and> sfx \<in> set hostSuffixes}"
    and v: "\<forall>j < length [''hippo-a'', ''hippo-b''].
              \<forall>(sfx, v) \<in> set (hostOptions exampleConstants ''svc'' ''ns'' ''/pgdata/pg15'' 5432
                                  ([''hippo-a'', ''hippo-b''] ! j)).
                stanza (pgKey (j + 1) sfx) = Some [v]"
    by blast
  from v [rule_format, of 0 "(''-host'', ''hippo-a-0.svc.ns.svc.cluster.local.'')"]
  have h1: "stanza ''pg1-host'' = Some [''hippo-a-0.svc.ns.svc.cluster.local.'']"
    by (simp add: hostOptions_def exampleConstants_def pgKey_examples)
  from v [rule_format, of 1 "(''-host'', ''hippo-b-0.svc.ns.svc.cluster.local.'')"]
  have h2: "stanza ''pg2-host'' = Some [''hippo-b-0.svc.ns.svc.cluster.local.'']"
    by (simp add: hostOptions_def exampleConstants_def pgKey_examples)
  from v [rule_format, of 1 "(''-port'', ''5432'')"]
  have p2: "stanza ''pg2-port'' = Some [''5432'']"
    by (simp add: hostOptions_def exampleConstants_def pgKey_examples Sprint_5432)
  have "pgKey 3 ''-host'' \<notin> dom stanza"
    unfolding d hostSuffixes_def by (auto simp: pgKey_inject)
  then have n3: "''pg3-host'' \<notin> dom stanza"
    by (simp add: pgKey_examples)
  from a sec h1 h2 p2 n3 show ?thesis by blast
qed

lemma repoHost_global:
  "populateRepoHostConfigurationMap c visit serviceName serviceNamespace pgdataDir pgPort
       pgHosts repos globalConfig ''global''
     = Some (range_set globalConfig (fst (repoHostRepos c visit 0 repos (Map.empty, False))))"
  by (simp add: populateRepoHostConfigurationMap_def Let_def DefaultStanzaName_def
        split: prod.splits)

lemma permuting_id: "permuting (\<lambda>i xs. xs)"
  by (simp add: permuting_def)

text \<open>
  C7, amended. In repo-host-role synthesis, when the global override map has no
  \<open>log-path\<close> key and no repository is named \<open>log\<close>, the \<open>log-path\<close> key of the
  global section is the path derived from the first volume-backed repository of the list,
  and the key is absent when no repository is volume-backed. (The override map is applied
  after the repositories and replaces the key; as the claim was stated, without the two
  conditions, it fails: see the counterexample.)
\<close>

theorem repo_host_log_path:
  assumes "permuting visit"
    and "\<forall>repo \<in> set repos. Name repo \<noteq> ''log''"
    and "''log-path'' \<notin> fst ` set globalConfig"
  shows "sectionKey (populateRepoHostConfigurationMap c visit serviceName serviceNamespace
             pgdataDir pgPort pgHosts repos globalConfig) ''global'' ''log-path''
     = (case find (\<lambda>repo. Volume repo \<noteq> None) repos of
          None \<Rightarrow> None
        | Some repo \<Rightarrow> Some [PGBackRestRepoLogPath c (Name repo)])"
proof -
  have "range_set globalConfig (fst (repoHostRepos c visit 0 repos (Map.empty, False))) ''log-path''
      = fst (repoHostRepos c visit 0 repos (Map.empty, False)) ''log-path''"
    using assms(3) by (rule range_set_frame)
  then show ?thesis
    by (simp add: sectionKey_def repoHost_global repoHostRepos_log_path [OF assms(1,2)])
qed

theorem repo_host_log_path_witness:
  "sectionKey (populateRepoHostConfigurationMap exampleConstants (\<lambda>i xs. xs) ''svc'' ''ns''
       ''/pgdata/pg15'' 5432 [''hippo-a'']
       [exampleS3 ''a'', exampleVolume ''b'', exampleVolume ''c'']
       [(''archive-async'', ''y'')]) ''global'' ''log-path''
     = Some [''/pgbackrest/b/log'']
   \<and> sectionKey (populateRepoHostConfigurationMap exampleConstants (\<lambda>i xs. xs) ''svc'' ''ns''
       ''/pgdata/pg15'' 5432 [''hippo-a''] [exampleS3 ''a''] [(''archive-async'', ''y'')])
       ''global'' ''log-path''
     = None"
proof -
  have n1: "\<forall>repo \<in> set [exampleS3 ''a'', exampleVolume ''b'', exampleVolume ''c''].
      Name repo \<noteq> ''log''"
    and n2: "\<forall>repo \<in> set [exampleS3 ''a'']. Name repo \<noteq> ''log''"
    and g: "''log-path'' \<notin> fst ` set [(''archive-async'', ''y'')]"
    by (simp_all add: exampleS3_def exampleVolume_def)
  show ?thesis
    using repo_host_log_path [OF permuting_id n1 g, of exampleConstants "''svc''" "''ns''"
        "''/pgdata/pg15''" 5432 "[''hippo-a'']"]
      repo_host_log_path [OF permuting_id n2 g, of exampleConstants "''svc''" "''ns''"
        "''/pgdata/pg15''" 5432 "[''hippo-a'']"]
    by (simp add: exampleS3_def exampleVolume_def exampleConstants_def)
qed

theorem repo_host_log_path_counterexample:
  "sectionKey (populateRepoHostConfigurationMap exampleConstants (\<lambda>i xs. xs) ''svc'' ''ns''
       ''/pgdata/pg15'' 5432 [''hippo-a'']
       [exampleS3 ''a'', exampleVolume ''b'', exampleVolume ''c'']
       [(''log-path'', ''/tmp/log'')]) ''global'' ''log-path''
     = Some [''/tmp/log'']
   \<and> Some [''/tmp/log''] \<noteq> Some [PGBackRestRepoLogPath exampleConstants ''b'']
   \<and> sectionKey (populateRepoHostConfigurationMap exampleConstants (\<lambda>i xs. xs) ''svc'' ''ns''
       ''/pgdata/pg15'' 5432 [''hippo-a''] [exampleS3 ''a''] [(''log-path'', ''/tmp/log'')])
       ''global'' ''log-path''
     = Some [''/tmp/log'']
   \<and> find (\<lambda>repo. Volume repo \<noteq> None) [exampleS3 ''a''] = None
   \<and> sectionKey (populateRepoHostConfigurationMap exampleConstants (\<lambda>i xs. xs) ''svc'' ''ns''
       ''/pgdata/pg15'' 5432 [''hippo-a''] [exampleVolume ''b'', exampleS3 ''log''] [])
       ''global'' ''log-path''
     = Some [''/pgbackrest/log'']
   \<and> Some [''/pgbackrest/log''] \<noteq> Some [PGBackRestRepoLogPath exampleConstants ''b'']"
  by (simp add: sectionKey_def repoHost_global Let_def Set_ini_def exampleS3_def
        exampleVolume_def exampleConstants_def getExternalRepoConfigs_def defaultRepo1Path_def)

lemma serverConfig_server:
  "serverConfig c clientCommonName annotations ''global:server''
     = Some [''log-level-console'' \<mapsto> [''detail''], ''log-level-stderr'' \<mapsto> [''error''],
             ''log-level-file'' \<mapsto> [''off''], ''log-timestamp'' \<mapsto> [''n'']]"
  by (simp add: serverConfig_def Let_def Set_ini_def)

lemma serverConfig_levels:
  "levelOf (serverConfig c clientCommonName annotations) ''log-level-console'' = Some Detail"
  "levelOf (serverConfig c clientCommonName annotations) ''log-level-stderr'' = Some Error"
  "levelOf (serverConfig c clientCommonName annotations) ''log-level-file'' = Some Off"
  by (simp_all add: levelOf_def sectionKey_def serverConfig_server parseLevel_def)

text \<open>
  C9, amended. The TLS listener configuration sets \<open>log-level-console\<close> to \<open>detail\<close>,
  \<open>log-level-stderr\<close> to \<open>error\<close> and \<open>log-level-file\<close> to \<open>off\<close>: error messages
  reach stderr, and warn, info and detail messages reach stdout, so the messages on the
  standard streams are those of the levels error, warn, info and detail (not only warnings
  and errors: see the counterexample); debug and trace messages reach neither.
\<close>

theorem serverConfig_log_levels:
  "sectionKey (serverConfig c clientCommonName annotations) ''global:server'' ''log-level-console''
     = Some [''detail'']
   \<and> sectionKey (serverConfig c clientCommonName annotations) ''global:server'' ''log-level-stderr''
     = Some [''error'']
   \<and> sectionKey (serverConfig c clientCommonName annotations) ''global:server'' ''log-level-file''
     = Some [''off'']
   \<and> onStderr (serverConfig c clientCommonName annotations) msg = (msg = Error)
   \<and> onStdout (serverConfig c clientCommonName annotations) msg
       = (msg = Warn \<or> msg = Info \<or> msg = Detail)
   \<and> onStandardStreams (serverConfig c clientCommonName annotations) msg
       = (msg = Error \<or> msg = Warn \<or> msg = Info \<or> msg = Detail)"
  by (cases msg)
     (auto simp add: sectionKey_def serverConfig_server onStderr_def onStdout_def
        onStandardStreams_def serverConfig_levels)

theorem serverConfig_log_levels_witness:
  "onStandardStreams (serverConfig exampleConstants ''ivory@hippo'' Map.empty) Detail
   \<and> onStdout (serverConfig exampleConstants ''ivory@hippo'' Map.empty) Info
   \<and> onStderr (serverConfig exampleConstants ''ivory@hippo'' Map.empty) Error
   \<and> \<not> onStandardStreams (serverConfig exampleConstants ''ivory@hippo'' Map.empty) Debug"
  using serverConfig_log_levels [of exampleConstants "''ivory@hippo''" Map.empty Detail]
    serverConfig_log_levels [of exampleConstants "''ivory@hippo''" Map.empty Info]
    serverConfig_log_levels [of exampleConstants "''ivory@hippo''" Map.empty Error]
    serverConfig_log_levels [of exampleConstants "''ivory@hippo''" Map.empty Debug]
  by simp

theorem serverConfig_only_warnings_errors_counterexample:
  "\<not> (\<forall>msg. onStandardStreams (serverConfig exampleConstants ''ivory@hippo'' Map.empty) msg
         \<longrightarrow> msg = Warn \<or> msg = Error)"
proof
  assume a: "\<forall>msg. onStandardStreams (serverConfig exampleConstants ''ivory@hippo'' Map.empty) msg
         \<longrightarrow> msg = Warn \<or> msg = Error"
  have "onStandardStreams (serverConfig exampleConstants ''ivory@hippo'' Map.empty) Info"
    by (simp add: onStandardStreams_def onStdout_def onStderr_def serverConfig_levels)
  with a have "Info = Warn \<or> Info = Error" by blast
  then show False by simp
qed

subsection \<open>Properties of the upgrade reconciler\<close>

lemma condition_types_differ:
  "ConditionIvyUpgradeSucceeded \<noteq> ConditionIvyUpgradeProgressing"
  by (simp add: ConditionIvyUpgradeSucceeded_def ConditionIvyUpgradeProgressing_def)

lemma find_append_conditions:
  "find P (xs @ ys) = (case find P xs of None \<Rightarrow> find P ys | Some x \<Rightarrow> Some x)"
  by (induction xs) simp_all

lemma find_updateFirst:
  assumes "\<And>c. Type (f c) = Type c"
  shows "FindStatusCondition (updateFirst t f cs) t'
     = (if t' = t then map_option f (FindStatusCondition cs t) else FindStatusCondition cs t')"
  using assms by (induction cs) (auto simp: FindStatusCondition_def)

lemma find_SetStatusCondition_other:
  "t \<noteq> Type c \<Longrightarrow>
     FindStatusCondition (SetStatusCondition n cs c) t = FindStatusCondition cs t"
proof (cases "FindStatusCondition cs (Type c)")
  case None
  assume "t \<noteq> Type c"
  with None show ?thesis
    by (auto simp: SetStatusCondition_def FindStatusCondition_def find_append_conditions split: option.splits)
next
  case (Some e)
  assume "t \<noteq> Type c"
  with Some show ?thesis
    by (simp add: SetStatusCondition_def find_updateFirst)
qed

lemma find_SetStatusCondition_same:
  "\<exists>p. FindStatusCondition (SetStatusCondition n cs c) (Type c) = Some p
       \<and> Status p = Status c \<and> Reason p = Reason c"
proof (cases "FindStatusCondition cs (Type c)")
  case None
  then show ?thesis
    by (auto simp: SetStatusCondition_def FindStatusCondition_def find_append_conditions split: option.splits)
next
  case (Some e)
  then show ?thesis
    by (simp add: SetStatusCondition_def find_updateFirst)
qed

lemma setCondition_fields [simp]:
  "Name_upgrade (setCondition r c u) = Name_upgrade u"
  "Generation (setCondition r c u) = Generation u"
  "IvoryClusterName (setCondition r c u) = IvoryClusterName u"
  "FromIvoryVersion (setCondition r c u) = FromIvoryVersion u"
  "ToIvoryVersion (setCondition r c u) = ToIvoryVersion u"
  by (simp_all add: setCondition_def)

lemma setStatusToProgressing_fields [simp]:
  "Name_upgrade (setStatusToProgressingIfReasonWas r reason u) = Name_upgrade u"
  "Generation (setStatusToProgressingIfReasonWas r reason u) = Generation u"
  "IvoryClusterName (setStatusToProgressingIfReasonWas r reason u) = IvoryClusterName u"
  "FromIvoryVersion (setStatusToProgressingIfReasonWas r reason u) = FromIvoryVersion u"
  "ToIvoryVersion (setStatusToProgressingIfReasonWas r reason u) = ToIvoryVersion u"
  by (simp_all add: setStatusToProgressingIfReasonWas_def Let_def)

lemma setCondition_progressing_keeps_succeeded:
  "Type c = ConditionIvyUpgradeProgressing \<Longrightarrow>
     FindStatusCondition (Conditions (setCondition r c u)) ConditionIvyUpgradeSucceeded
       = FindStatusCondition (Conditions u) ConditionIvyUpgradeSucceeded"
  by (simp add: setCondition_def find_SetStatusCondition_other condition_types_differ)

lemma setStatusToProgressing_keeps_succeeded [simp]:
  "FindStatusCondition (Conditions (setStatusToProgressingIfReasonWas r reason u))
       ConditionIvyUpgradeSucceeded
     = FindStatusCondition (Conditions u) ConditionIvyUpgradeSucceeded"
  by (simp add: setStatusToProgressingIfReasonWas_def Let_def
        setCondition_progressing_keeps_succeeded)

lemma notProgressing_keeps_succeeded [simp]:
  "FindStatusCondition (Conditions (setCondition r (notProgressing u' reason message) u))
       ConditionIvyUpgradeSucceeded
     = FindStatusCondition (Conditions u) ConditionIvyUpgradeSucceeded"
  by (simp add: setCondition_progressing_keeps_succeeded notProgressing_def)

lemma progressingIs_notProgressing [simp]:
  "progressingIs (setCondition r (notProgressing u' reason message) u) ConditionFalse reason"
  using find_SetStatusCondition_same [of "now r" "Conditions u" "notProgressing u' reason message"]
  by (simp add: progressingIs_def setCondition_def notProgressing_def)

lemma return_fields [simp]:
  "s_upgrade (return u res e effs) = u"
  "s_result (return u res e effs) = res"
  "s_err (return u res e effs) = e"
  "s_effects (return u res e effs) = effs"
  by (simp_all add: return_def)

lemma Reconcile_found:
  "Get r = Inr u \<Longrightarrow>
     Reconcile r =
       (let st = reconcileUpgrade r u in
        \<lparr>out_result = s_result st,
         out_err = (if Conditions u \<noteq> Conditions (s_upgrade st) \<and> s_err st = None
                    then Patch_upgrade_status r else s_err st),
         out_upgrade = Some (s_upgrade st),
         out_effects = s_effects st @ statusPatchOnly u (s_upgrade st)\<rparr>)"
  by (auto simp: Reconcile_def patchStatusOnExit_def statusPatchOnly_def Let_def)

text \<open>
  C1. Once the request carries the \<open>Succeeded\<close> condition with status \<open>True\<close> and
  reason \<open>IvyUpgradeSucceeded\<close>, a call of \<open>Reconcile\<close> on it, whatever the API answers,
  returns at once with no error and no requeue, leaves the request and all its conditions
  as they were, and sends no write to the API: no job is created, nothing is deleted, and
  the status is not patched.
\<close>

theorem succeeded_is_final:
  assumes "Get r = Inr u"
    and "FindStatusCondition (Conditions u) ConditionIvyUpgradeSucceeded = Some s"
    and "Status s = ConditionTrue" and "Reason s = ''IvyUpgradeSucceeded''"
  shows "Reconcile r
     = \<lparr>out_result = Result_zero, out_err = None, out_upgrade = Some u, out_effects = []\<rparr>"
  using assms(2,4)
  by (simp add: Reconcile_found [OF assms(1)] reconcileUpgrade_def statusPatchOnly_def)

lemma reconcileUpgrade_invalid:
  assumes "FromIvoryVersion u \<ge> ToIvoryVersion u" and "\<not> alreadySucceeded u"
  shows "\<exists>u'. reconcileUpgrade r u = return u' Result_zero None []
           \<and> progressingIs u' ConditionFalse ''IvyUpgradeInvalid''"
proof -
  define u1 where "u1 = setStatusToProgressingIfReasonWas r [] u"
  define u' where "u' = setCondition r (notProgressing u1 ''IvyUpgradeInvalid''
      (''Cannot upgrade from ivory version '' @ Sprint_int (FromIvoryVersion u1)
         @ '' to '' @ Sprint_int (ToIvoryVersion u1))) u1"
  from assms have "reconcileUpgrade r u = return u' Result_zero None []"
    unfolding reconcileUpgrade_def alreadySucceeded_def Let_def u'_def u1_def by auto
  moreover have "progressingIs u' ConditionFalse ''IvyUpgradeInvalid''"
    unfolding u'_def by (rule progressingIs_notProgressing)
  ultimately show ?thesis by blast
qed

text \<open>
  C2, amended. For a request with \<open>FromIvoryVersion \<ge> ToIvoryVersion\<close> that has not
  already succeeded, \<open>Reconcile\<close> sets the \<open>Progressing\<close> condition to \<open>False\<close> with
  reason \<open>IvyUpgradeInvalid\<close> and returns no requeue; its only write is the patch of the
  status of the request (sent when the conditions changed), so no job is created; the error
  it returns is the one of that patch, if any. (A request that has already succeeded is
  left alone, and a failed status patch is returned as the error: see the counterexample.)
\<close>

theorem invalid_request:
  assumes "Get r = Inr u" and "FromIvoryVersion u \<ge> ToIvoryVersion u"
    and "\<not> alreadySucceeded u"
  shows "\<exists>u'. out_upgrade (Reconcile r) = Some u'
           \<and> progressingIs u' ConditionFalse ''IvyUpgradeInvalid''
           \<and> out_result (Reconcile r) = Result_zero
           \<and> out_effects (Reconcile r) = statusPatchOnly u u'
           \<and> out_err (Reconcile r)
               = (if Conditions u \<noteq> Conditions u' then Patch_upgrade_status r else None)"
proof -
  from reconcileUpgrade_invalid [OF assms(2,3)]
  obtain u' where "reconcileUpgrade r u = return u' Result_zero None []"
    and "progressingIs u' ConditionFalse ''IvyUpgradeInvalid''" by blast
  then show ?thesis
    by (simp add: Reconcile_found [OF assms(1)])
qed

lemma reconcileWorld_not_allowed:
  assumes "index_map (Annotations (Cluster world)) AnnotationAllowUpgrade \<noteq> Name_upgrade u"
  shows "s_effects (reconcileWorld r u world) = []
    \<and> s_result (reconcileWorld r u world) = Result_zero
    \<and> s_err (reconcileWorld r u world) = None"
  using assms
  by (simp add: reconcileWorld_def Let_def split: option.splits prod.splits)

lemma reconcileWorld_missing_annotation:
  assumes "index_map (Annotations (Cluster world)) AnnotationAllowUpgrade \<noteq> Name_upgrade u"
    and "ClusterNotFound world = None"
    and "Status_PostgresVersion (Cluster world) \<noteq> ToIvoryVersion u"
    and "ClusterShutdown world" and "ClusterPrimary world = Some primary"
    and "Spec_PostgresVersion (Cluster world) = FromIvoryVersion u"
    and "FromIvoryVersion u < ToIvoryVersion u"
  shows "\<exists>a m b. reconcileWorld r u world
     = return (setCondition r (notProgressing a ''PGClusterMissingRequiredAnnotation'' m) b)
         Result_zero None []"
  using assms
  apply (simp add: reconcileWorld_def Let_def split: prod.splits)
  apply (intro allI impI exI)
  apply (rule refl)
  done

lemma reconcileWorld_resolved:
  assumes "ClusterNotFound world = None"
    and "Spec_PostgresVersion (Cluster world) = ToIvoryVersion u"
    and "\<not> upgradeJobCompleted r u world"
  shows "\<exists>a m b. reconcileWorld r u world
     = return (setCondition r (notProgressing a ''IvyUpgradeResolved'' m) b) Result_zero None []
     \<and> FindStatusCondition (Conditions b) ConditionIvyUpgradeSucceeded
         = FindStatusCondition (Conditions u) ConditionIvyUpgradeSucceeded"
  using assms
  apply (simp add: reconcileWorld_def upgradeJobCompleted_def Let_def split: prod.splits)
  apply (intro allI impI exI conjI)
   apply (rule refl)
  apply simp
  done

lemma reconcileUpgrade_world:
  assumes "\<not> alreadySucceeded u" and "FromIvoryVersion u < ToIvoryVersion u"
    and "observeWorld r = Inr world"
  shows "reconcileUpgrade r u
     = reconcileWorld r
         (setStatusToProgressingIfReasonWas r ''PGClusterErrorWhenObservingWorld''
           (setStatusToProgressingIfReasonWas r ''IvyUpgradeInvalid''
             (setStatusToProgressingIfReasonWas r [] u))) world"
  using assms
  unfolding reconcileUpgrade_def alreadySucceeded_def Let_def by auto

lemma reconcileUpgrade_not_allowed:
  assumes "observeWorld r = Inr world"
    and "index_map (Annotations (Cluster world)) AnnotationAllowUpgrade \<noteq> Name_upgrade u"
  shows "s_effects (reconcileUpgrade r u) = []
    \<and> s_result (reconcileUpgrade r u) = Result_zero
    \<and> s_err (reconcileUpgrade r u) = None"
  using assms reconcileWorld_not_allowed [of world
      "setStatusToProgressingIfReasonWas r ''PGClusterErrorWhenObservingWorld''
         (setStatusToProgressingIfReasonWas r ''IvyUpgradeInvalid''
           (setStatusToProgressingIfReasonWas r [] u))" r]
  by (simp add: reconcileUpgrade_def Let_def)

text \<open>
  C3, amended. For a request with \<open>FromIvoryVersion < ToIvoryVersion\<close> whose cluster does
  not carry the allow-upgrade annotation with the name of the request, \<open>Reconcile\<close> never
  reaches the creation of jobs: its only write is the patch of the status of the request,
  and it returns no requeue. When the request passes the gates that come before (it has not
  already succeeded, the cluster is found, its status version is not the target version,
  it is shut down with a primary identified, and its version is the source version), the
  \<open>Progressing\<close> condition is set to \<open>False\<close> with reason
  \<open>PGClusterMissingRequiredAnnotation\<close>. (Otherwise an earlier gate writes its own
  reason: see the counterexample.)
\<close>

theorem authorization_gate:
  assumes "Get r = Inr u" and "FromIvoryVersion u < ToIvoryVersion u"
    and "observeWorld r = Inr world"
    and "index_map (Annotations (Cluster world)) AnnotationAllowUpgrade \<noteq> Name_upgrade u"
  shows "\<exists>u'. out_upgrade (Reconcile r) = Some u'
           \<and> out_effects (Reconcile r) = statusPatchOnly u u'
           \<and> (\<forall>e \<in> set (out_effects (Reconcile r)). \<not> createsJob e)
           \<and> out_result (Reconcile r) = Result_zero
           \<and> (reachesAuthorizationGate u world \<longrightarrow>
                progressingIs u' ConditionFalse ''PGClusterMissingRequiredAnnotation'')"
proof -
  let ?st = "reconcileUpgrade r u"
  note na = reconcileUpgrade_not_allowed [OF assms(3,4)]
  have gate: "progressingIs (s_upgrade ?st) ConditionFalse ''PGClusterMissingRequiredAnnotation''"
    if g: "reachesAuthorizationGate u world"
  proof -
    let ?u3 = "setStatusToProgressingIfReasonWas r ''PGClusterErrorWhenObservingWorld''
           (setStatusToProgressingIfReasonWas r ''IvyUpgradeInvalid''
             (setStatusToProgressingIfReasonWas r [] u))"
    from g obtain primary where p: "ClusterPrimary world = Some primary"
      by (auto simp: reachesAuthorizationGate_def)
    from g have w: "?st = reconcileWorld r ?u3 world"
      by (intro reconcileUpgrade_world assms) (simp add: reachesAuthorizationGate_def)
    from g assms(2,4) p
    have "\<exists>a m b. reconcileWorld r ?u3 world
        = return (setCondition r (notProgressing a ''PGClusterMissingRequiredAnnotation'' m) b)
            Result_zero None []"
      by (intro reconcileWorld_missing_annotation) (simp_all add: reachesAuthorizationGate_def)
    then obtain a m b where "reconcileWorld r ?u3 world
        = return (setCondition r (notProgressing a ''PGClusterMissingRequiredAnnotation'' m) b)
            Result_zero None []" by blast
    with w show ?thesis by simp
  qed
  have "\<forall>e \<in> set (statusPatchOnly u (s_upgrade ?st)). \<not> createsJob e"
    by (simp add: statusPatchOnly_def)
  with na gate show ?thesis
    by (simp add: Reconcile_found [OF assms(1)] Let_def)
qed

text \<open>
  C4, amended. For a request with \<open>FromIvoryVersion < ToIvoryVersion\<close> that has not already
  succeeded and whose cluster is observed and found: if the declared version of the cluster
  equals \<open>ToIvoryVersion\<close> while the upgrade job has not completed, \<open>Reconcile\<close> sets the
  \<open>Progressing\<close> condition to \<open>False\<close> with reason \<open>IvyUpgradeResolved\<close>, writes nothing
  but the patch of the status of the request (so no job is created), leaves the
  \<open>Succeeded\<close> condition as it was, and returns no requeue. (An invalid or an already
  succeeded request ends before this test: see the counterexample.)
\<close>

theorem resolved_no_op:
  assumes "Get r = Inr u" and "\<not> alreadySucceeded u"
    and "FromIvoryVersion u < ToIvoryVersion u"
    and "observeWorld r = Inr world" and "ClusterNotFound world = None"
    and "Spec_PostgresVersion (Cluster world) = ToIvoryVersion u"
    and "\<not> upgradeJobCompleted r u world"
  shows "\<exists>u'. out_upgrade (Reconcile r) = Some u'
           \<and> progressingIs u' ConditionFalse ''IvyUpgradeResolved''
           \<and> out_effects (Reconcile r) = statusPatchOnly u u'
           \<and> FindStatusCondition (Conditions u') ConditionIvyUpgradeSucceeded
               = FindStatusCondition (Conditions u) ConditionIvyUpgradeSucceeded
           \<and> out_result (Reconcile r) = Result_zero"
proof -
  let ?u3 = "setStatusToProgressingIfReasonWas r ''PGClusterErrorWhenObservingWorld''
         (setStatusToProgressingIfReasonWas r ''IvyUpgradeInvalid''
           (setStatusToProgressingIfReasonWas r [] u))"
  have w: "reconcileUpgrade r u = reconcileWorld r ?u3 world"
    by (rule reconcileUpgrade_world [OF assms(2,3,4)])
  have "\<exists>a m b. reconcileWorld r ?u3 world
     = return (setCondition r (notProgressing a ''IvyUpgradeResolved'' m) b) Result_zero None []
     \<and> FindStatusCondition (Conditions b) ConditionIvyUpgradeSucceeded
         = FindStatusCondition (Conditions ?u3) ConditionIvyUpgradeSucceeded"
    using assms(5,6,7)
    by (intro reconcileWorld_resolved) (simp_all add: upgradeJobCompleted_def)
  then obtain a m b where "reconcileWorld r ?u3 world
     = return (setCondition r (notProgressing a ''IvyUpgradeResolved'' m) b) Result_zero None []"
    and "FindStatusCondition (Conditions b) ConditionIvyUpgradeSucceeded
         = FindStatusCondition (Conditions ?u3) ConditionIvyUpgradeSucceeded" by blast
  with w show ?thesis
    by (simp add: Reconcile_found [OF assms(1)] Let_def)
qed

lemma example_fields [simp]:
  "Get (exampleClient u world p) = Inr u"
  "observeWorld (exampleClient u world p) = Inr world"
  "Patch_upgrade_status (exampleClient u world p) = p"
  "pgUpgradeJob_Name (exampleClient u world p) name = name @ ''-pgdata''"
  "FromIvoryVersion (exampleUpgrade f t cs) = f"
  "ToIvoryVersion (exampleUpgrade f t cs) = t"
  "Conditions (exampleUpgrade f t cs) = cs"
  "Name_upgrade (exampleUpgrade f t cs) = ''hippo-upgrade''"
  "ClusterNotFound (exampleWorld ann v sv sh) = None"
  "Annotations (Cluster (exampleWorld ann v sv sh)) = ann"
  "Spec_PostgresVersion (Cluster (exampleWorld ann v sv sh)) = v"
  "Status_PostgresVersion (Cluster (exampleWorld ann v sv sh)) = sv"
  "ClusterShutdown (exampleWorld ann v sv sh) = sh"
  "ClusterPrimary (exampleWorld ann v sv sh) = (if sh then Some ''hippo-instance1-abcd'' else None)"
  "Jobs (exampleWorld ann v sv sh) = []"
  by (simp_all add: exampleClient_def exampleUpgrade_def exampleWorld_def)

lemma example_conditions [simp]:
  "FindStatusCondition [] t = None"
  "FindStatusCondition [completedCondition, succeededCondition] ConditionIvyUpgradeSucceeded
     = Some succeededCondition"
  "FindStatusCondition [completedCondition, succeededCondition] ConditionIvyUpgradeProgressing
     = Some completedCondition"
  "Status succeededCondition = ConditionTrue"
  "Reason succeededCondition = ''IvyUpgradeSucceeded''"
  "Reason completedCondition = ''IvyUpgradeCompleted''"
  by (simp_all add: FindStatusCondition_def completedCondition_def succeededCondition_def
        ConditionIvyUpgradeSucceeded_def ConditionIvyUpgradeProgressing_def)

lemma progressingIs_reason:
  "progressingIs u status reason \<Longrightarrow> reason' \<noteq> reason \<Longrightarrow> \<not> progressingIs u status' reason'"
  by (auto simp: progressingIs_def)

lemma progressingIs_conditions: "progressingIs u status reason \<Longrightarrow> Conditions u \<noteq> []"
  by (auto simp: progressingIs_def FindStatusCondition_def)

theorem succeeded_is_final_witness:
  "Reconcile (exampleClient (exampleUpgrade 14 15 [completedCondition, succeededCondition])
       (exampleWorld Map.empty 15 15 True) None)
     = \<lparr>out_result = Result_zero, out_err = None,
        out_upgrade = Some (exampleUpgrade 14 15 [completedCondition, succeededCondition]),
        out_effects = []\<rparr>"
  by (rule succeeded_is_final [of _ _ succeededCondition]) simp_all

theorem invalid_request_witness:
  "\<exists>u'. out_upgrade (Reconcile (exampleClient (exampleUpgrade 15 14 [])
             (exampleWorld Map.empty 15 15 True) None)) = Some u'
     \<and> progressingIs u' ConditionFalse ''IvyUpgradeInvalid''
     \<and> out_result (Reconcile (exampleClient (exampleUpgrade 15 14 [])
             (exampleWorld Map.empty 15 15 True) None)) = Result_zero
     \<and> out_effects (Reconcile (exampleClient (exampleUpgrade 15 14 [])
             (exampleWorld Map.empty 15 15 True) None)) = [PatchUpgradeStatus (Conditions u')]
     \<and> out_err (Reconcile (exampleClient (exampleUpgrade 15 14 [])
             (exampleWorld Map.empty 15 15 True) None)) = None"
proof -
  let ?r = "exampleClient (exampleUpgrade 15 14 []) (exampleWorld Map.empty 15 15 True) None"
  have "\<exists>u'. out_upgrade (Reconcile ?r) = Some u'
           \<and> progressingIs u' ConditionFalse ''IvyUpgradeInvalid''
           \<and> out_result (Reconcile ?r) = Result_zero
           \<and> out_effects (Reconcile ?r) = statusPatchOnly (exampleUpgrade 15 14 []) u'
           \<and> out_err (Reconcile ?r)
               = (if Conditions (exampleUpgrade 15 14 []) \<noteq> Conditions u'
                  then Patch_upgrade_status ?r else None)"
    by (rule invalid_request) (simp_all add: alreadySucceeded_def)
  then obtain u' where u': "out_upgrade (Reconcile ?r) = Some u'"
    "progressingIs u' ConditionFalse ''IvyUpgradeInvalid''"
    "out_result (Reconcile ?r) = Result_zero"
    "out_effects (Reconcile ?r) = statusPatchOnly (exampleUpgrade 15 14 []) u'"
    "out_err (Reconcile ?r)
       = (if Conditions (exampleUpgrade 15 14 []) \<noteq> Conditions u'
          then Patch_upgrade_status ?r else None)"
    by blast
  from u'(2) have "Conditions u' \<noteq> []" by (rule progressingIs_conditions)
  then have "[] \<noteq> Conditions u'" by simp
  with u' show ?thesis
    by (simp add: statusPatchOnly_def)
qed

lemma reconcile_invalid_patch_fails:
  "out_err (Reconcile (exampleClient (exampleUpgrade 15 14 [])
       (exampleWorld Map.empty 15 15 True) (Some (Failure ''conflict''))))
     = Some (Failure ''conflict'')"
proof -
  let ?r = "exampleClient (exampleUpgrade 15 14 []) (exampleWorld Map.empty 15 15 True)
      (Some (Failure ''conflict''))"
  from reconcileUpgrade_invalid [of "exampleUpgrade 15 14 []" ?r]
  obtain u' where r: "reconcileUpgrade ?r (exampleUpgrade 15 14 []) = return u' Result_zero None []"
    and p: "progressingIs u' ConditionFalse ''IvyUpgradeInvalid''"
    by (auto simp: alreadySucceeded_def)
  from p have "Conditions u' \<noteq> []" by (rule progressingIs_conditions)
  then have "[] \<noteq> Conditions u'" by simp
  with r show ?thesis
    by (simp add: Reconcile_found [of ?r "exampleUpgrade 15 14 []"])
qed

theorem invalid_request_counterexample:
  "FromIvoryVersion (exampleUpgrade 15 14 [completedCondition, succeededCondition])
     \<ge> ToIvoryVersion (exampleUpgrade 15 14 [completedCondition, succeededCondition])
   \<and> out_upgrade (Reconcile (exampleClient
         (exampleUpgrade 15 14 [completedCondition, succeededCondition])
         (exampleWorld Map.empty 15 15 True) None))
     = Some (exampleUpgrade 15 14 [completedCondition, succeededCondition])
   \<and> \<not> progressingIs (exampleUpgrade 15 14 [completedCondition, succeededCondition])
         ConditionFalse ''IvyUpgradeInvalid''
   \<and> FromIvoryVersion (exampleUpgrade 15 14 []) \<ge> ToIvoryVersion (exampleUpgrade 15 14 [])
   \<and> out_err (Reconcile (exampleClient (exampleUpgrade 15 14 [])
         (exampleWorld Map.empty 15 15 True) (Some (Failure ''conflict''))))
     = Some (Failure ''conflict'')"
proof -
  have "out_upgrade (Reconcile (exampleClient
         (exampleUpgrade 15 14 [completedCondition, succeededCondition])
         (exampleWorld Map.empty 15 15 True) None))
     = Some (exampleUpgrade 15 14 [completedCondition, succeededCondition])"
    by (simp add: Reconcile_found reconcileUpgrade_def)
  moreover have "\<not> progressingIs (exampleUpgrade 15 14 [completedCondition, succeededCondition])
         ConditionFalse ''IvyUpgradeInvalid''"
    by (simp add: progressingIs_def)
  ultimately show ?thesis
    using reconcile_invalid_patch_fails by simp
qed

lemma reconcileWorld_not_shutdown:
  assumes "ClusterNotFound world = None"
    and "Spec_PostgresVersion (Cluster world) \<noteq> ToIvoryVersion u"
    and "Status_PostgresVersion (Cluster world) \<noteq> ToIvoryVersion u"
    and "\<not> ClusterShutdown world"
  shows "\<exists>a m b. reconcileWorld r u world
     = return (setCondition r (notProgressing a ''PGClusterNotShutdown'' m) b) Result_zero None []"
  using assms
  by (auto simp: reconcileWorld_def Let_def split: prod.splits)

lemma index_empty_annotation:
  "index_map Map.empty AnnotationAllowUpgrade \<noteq> ''hippo-upgrade''"
  by (simp add: index_map_def)

theorem authorization_gate_witness:
  "\<exists>u'. out_upgrade (Reconcile (exampleClient (exampleUpgrade 14 15 [])
             (exampleWorld Map.empty 14 14 True) None)) = Some u'
     \<and> progressingIs u' ConditionFalse ''PGClusterMissingRequiredAnnotation''
     \<and> out_effects (Reconcile (exampleClient (exampleUpgrade 14 15 [])
             (exampleWorld Map.empty 14 14 True) None)) = [PatchUpgradeStatus (Conditions u')]
     \<and> out_result (Reconcile (exampleClient (exampleUpgrade 14 15 [])
             (exampleWorld Map.empty 14 14 True) None)) = Result_zero"
proof -
  let ?u = "exampleUpgrade 14 15 []"
  let ?w = "exampleWorld Map.empty 14 14 True"
  let ?r = "exampleClient ?u ?w None"
  have g: "reachesAuthorizationGate ?u ?w"
    by (simp add: reachesAuthorizationGate_def alreadySucceeded_def)
  have "\<exists>u'. out_upgrade (Reconcile ?r) = Some u'
           \<and> out_effects (Reconcile ?r) = statusPatchOnly ?u u'
           \<and> (\<forall>e \<in> set (out_effects (Reconcile ?r)). \<not> createsJob e)
           \<and> out_result (Reconcile ?r) = Result_zero
           \<and> (reachesAuthorizationGate ?u ?w \<longrightarrow>
                progressingIs u' ConditionFalse ''PGClusterMissingRequiredAnnotation'')"
    by (rule authorization_gate [where world = "exampleWorld Map.empty 14 14 True"])
       (simp_all add: index_empty_annotation)
  with g obtain u' where u': "out_upgrade (Reconcile ?r) = Some u'"
    "out_effects (Reconcile ?r) = statusPatchOnly ?u u'"
    "out_result (Reconcile ?r) = Result_zero"
    "progressingIs u' ConditionFalse ''PGClusterMissingRequiredAnnotation''"
    by blast
  from u'(4) have "Conditions u' \<noteq> []" by (rule progressingIs_conditions)
  then have "[] \<noteq> Conditions u'" by simp
  with u' show ?thesis
    by (simp add: statusPatchOnly_def)
qed

theorem authorization_gate_counterexample:
  "FromIvoryVersion (exampleUpgrade 14 15 []) < ToIvoryVersion (exampleUpgrade 14 15 [])
   \<and> index_map (Annotations (Cluster (exampleWorld Map.empty 14 14 False))) AnnotationAllowUpgrade
       \<noteq> Name_upgrade (exampleUpgrade 14 15 [])
   \<and> (\<exists>u'. out_upgrade (Reconcile (exampleClient (exampleUpgrade 14 15 [])
               (exampleWorld Map.empty 14 14 False) None)) = Some u'
         \<and> progressingIs u' ConditionFalse ''PGClusterNotShutdown''
         \<and> \<not> progressingIs u' ConditionFalse ''PGClusterMissingRequiredAnnotation'')"
proof -
  let ?u = "exampleUpgrade 14 15 []"
  let ?w = "exampleWorld Map.empty 14 14 False"
  let ?r = "exampleClient ?u ?w None"
  let ?u3 = "setStatusToProgressingIfReasonWas ?r ''PGClusterErrorWhenObservingWorld''
         (setStatusToProgressingIfReasonWas ?r ''IvyUpgradeInvalid''
           (setStatusToProgressingIfReasonWas ?r [] ?u))"
  have w: "reconcileUpgrade ?r ?u = reconcileWorld ?r ?u3 ?w"
    by (rule reconcileUpgrade_world) (simp_all add: alreadySucceeded_def)
  have "\<exists>a m b. reconcileWorld ?r ?u3 ?w
     = return (setCondition ?r (notProgressing a ''PGClusterNotShutdown'' m) b) Result_zero None []"
    by (rule reconcileWorld_not_shutdown) simp_all
  then obtain a m b where "reconcileWorld ?r ?u3 ?w
     = return (setCondition ?r (notProgressing a ''PGClusterNotShutdown'' m) b) Result_zero None []"
    by blast
  with w have up: "out_upgrade (Reconcile ?r)
      = Some (setCondition ?r (notProgressing a ''PGClusterNotShutdown'' m) b)"
    by (simp add: Reconcile_found [of ?r ?u])
  have p: "progressingIs (setCondition ?r (notProgressing a ''PGClusterNotShutdown'' m) b)
      ConditionFalse ''PGClusterNotShutdown''"
    by (rule progressingIs_notProgressing)
  then have "\<not> progressingIs (setCondition ?r (notProgressing a ''PGClusterNotShutdown'' m) b)
      ConditionFalse ''PGClusterMissingRequiredAnnotation''"
    by (rule progressingIs_reason) simp
  with up p show ?thesis
    by (simp add: index_empty_annotation)
qed

theorem resolved_no_op_witness:
  "\<exists>u'. out_upgrade (Reconcile (exampleClient (exampleUpgrade 14 15 [])
             (exampleWorld Map.empty 15 14 True) None)) = Some u'
     \<and> progressingIs u' ConditionFalse ''IvyUpgradeResolved''
     \<and> out_effects (Reconcile (exampleClient (exampleUpgrade 14 15 [])
             (exampleWorld Map.empty 15 14 True) None)) = [PatchUpgradeStatus (Conditions u')]
     \<and> FindStatusCondition (Conditions u') ConditionIvyUpgradeSucceeded = None
     \<and> out_result (Reconcile (exampleClient (exampleUpgrade 14 15 [])
             (exampleWorld Map.empty 15 14 True) None)) = Result_zero"
proof -
  let ?u = "exampleUpgrade 14 15 []"
  let ?w = "exampleWorld Map.empty 15 14 True"
  let ?r = "exampleClient ?u ?w None"
  have "\<exists>u'. out_upgrade (Reconcile ?r) = Some u'
           \<and> progressingIs u' ConditionFalse ''IvyUpgradeResolved''
           \<and> out_effects (Reconcile ?r) = statusPatchOnly ?u u'
           \<and> FindStatusCondition (Conditions u') ConditionIvyUpgradeSucceeded
               = FindStatusCondition (Conditions ?u) ConditionIvyUpgradeSucceeded
           \<and> out_result (Reconcile ?r) = Result_zero"
    by (rule resolved_no_op [where world = "exampleWorld Map.empty 15 14 True"])
       (simp_all add: alreadySucceeded_def upgradeJobCompleted_def)
  then obtain u' where u': "out_upgrade (Reconcile ?r) = Some u'"
    "progressingIs u' ConditionFalse ''IvyUpgradeResolved''"
    "out_effects (Reconcile ?r) = statusPatchOnly ?u u'"
    "FindStatusCondition (Conditions u') ConditionIvyUpgradeSucceeded
       = FindStatusCondition (Conditions ?u) ConditionIvyUpgradeSucceeded"
    "out_result (Reconcile ?r) = Result_zero"
    by blast
  from u'(2) have "Conditions u' \<noteq> []" by (rule progressingIs_conditions)
  then have "[] \<noteq> Conditions u'" by simp
  with u' show ?thesis
    by (simp add: statusPatchOnly_def)
qed

theorem resolved_no_op_counterexample:
  "Spec_PostgresVersion (Cluster (exampleWorld Map.empty 15 14 True))
     = ToIvoryVersion (exampleUpgrade 16 15 [])
   \<and> \<not> upgradeJobCompleted
         (exampleClient (exampleUpgrade 16 15 []) (exampleWorld Map.empty 15 14 True) None)
         (exampleUpgrade 16 15 []) (exampleWorld Map.empty 15 14 True)
   \<and> (\<exists>u'. out_upgrade (Reconcile (exampleClient (exampleUpgrade 16 15 [])
               (exampleWorld Map.empty 15 14 True) None)) = Some u'
         \<and> progressingIs u' ConditionFalse ''IvyUpgradeInvalid''
         \<and> \<not> progressingIs u' ConditionFalse ''IvyUpgradeResolved'')
   \<and> Spec_PostgresVersion (Cluster (exampleWorld Map.empty 15 15 True))
     = ToIvoryVersion (exampleUpgrade 14 15 [completedCondition, succeededCondition])
   \<and> \<not> upgradeJobCompleted
         (exampleClient (exampleUpgrade 14 15 [completedCondition, succeededCondition])
            (exampleWorld Map.empty 15 15 True) None)
         (exampleUpgrade 14 15 [completedCondition, succeededCondition])
         (exampleWorld Map.empty 15 15 True)
   \<and> out_upgrade (Reconcile (exampleClient
         (exampleUpgrade 14 15 [completedCondition, succeededCondition])
         (exampleWorld Map.empty 15 15 True) None))
     = Some (exampleUpgrade 14 15 [completedCondition, succeededCondition])
   \<and> \<not> progressingIs (exampleUpgrade 14 15 [completedCondition, succeededCondition])
         ConditionFalse ''IvyUpgradeResolved''"
proof -
  let ?u = "exampleUpgrade 16 15 []"
  let ?r = "exampleClient ?u (exampleWorld Map.empty 15 14 True) None"
  from reconcileUpgrade_invalid [of ?u ?r]
  obtain u' where r: "reconcileUpgrade ?r ?u = return u' Result_zero None []"
    and p: "progressingIs u' ConditionFalse ''IvyUpgradeInvalid''"
    by (auto simp: alreadySucceeded_def)
  from p have "\<not> progressingIs u' ConditionFalse ''IvyUpgradeResolved''"
    by (rule progressingIs_reason) simp
  with r p have a: "\<exists>u'. out_upgrade (Reconcile ?r) = Some u'
         \<and> progressingIs u' ConditionFalse ''IvyUpgradeInvalid''
         \<and> \<not> progressingIs u' ConditionFalse ''IvyUpgradeResolved''"
    by (simp add: Reconcile_found [of ?r ?u])
  have b: "out_upgrade (Reconcile (exampleClient
         (exampleUpgrade 14 15 [completedCondition, succeededCondition])
         (exampleWorld Map.empty 15 15 True) None))
     = Some (exampleUpgrade 14 15 [completedCondition, succeededCondition])"
    by (simp add: Reconcile_found reconcileUpgrade_def)
  have c: "\<not> progressingIs (exampleUpgrade 14 15 [completedCondition, succeededCondition])
         ConditionFalse ''IvyUpgradeResolved''"
    by (simp add: progressingIs_def)
  from a b c show ?thesis
    by (simp add: upgradeJobCompleted_def)
qed

subsection \<open>Properties of pgmonitor.go\<close>

lemma exampleExporterEnv_fields:
  "ExporterEnabled exampleExporterEnv cluster = False"
  "DisableExporterInPostgreSQL exampleExporterEnv
     = Exec ''DROP ROLE ccp_monitoring;'' [''psql''] (\<lambda>res. Done (fst res))"
  "ContainerDatabase exampleExporterEnv = ''database''"
  "digest exampleExporterEnv bytes = bytes"
  "PodExec exampleExporterEnv calls call = (None, [], [])"
  by (simp_all add: exampleExporterEnv_def)

text \<open>
  C8. \<open>reconcilePGMonitorExporter\<close> calls \<open>PodExec\<close>, or changes the status of the cluster,
  only when it has computed a revision (the hash of the input and the command of the SQL
  action with the identifiers of the container images) that differs from the one recorded
  in \<open>Status.Monitoring.ExporterConfiguration\<close>; when the revision it computes equals the
  recorded one it makes no call of \<open>PodExec\<close>, leaves the cluster as it is and returns nil.
\<close>

theorem exporter_hash_gate:
  "(case reconcilePGMonitorExporter e cluster instances of
      (err, cluster', calls) \<Rightarrow>
        ((calls \<noteq> [] \<or> cluster' \<noteq> cluster) \<longrightarrow>
           (\<exists>pod pgImageSHA exporterImageSHA revision.
              writableImages e cluster instances = Some (pod, pgImageSHA, exporterImageSHA)
              \<and> exporterRevision e cluster pgImageSHA exporterImageSHA = Inr revision
              \<and> revision \<noteq> ExporterConfiguration cluster))
        \<and> ((\<exists>pod pgImageSHA exporterImageSHA.
              writableImages e cluster instances = Some (pod, pgImageSHA, exporterImageSHA)
              \<and> exporterRevision e cluster pgImageSHA exporterImageSHA
                  = Inr (ExporterConfiguration cluster)) \<longrightarrow>
            err = None \<and> cluster' = cluster \<and> calls = []))"
proof (cases "writableImages e cluster instances")
  case None
  then show ?thesis by (simp add: reconcilePGMonitorExporter_def)
next
  case (Some images)
  obtain pod pg ex where images: "images = (pod, pg, ex)" by (cases images)
  show ?thesis
  proof (cases "exporterRevision e cluster pg ex")
    case (Inl failure)
    with Some images show ?thesis by (simp add: reconcilePGMonitorExporter_def)
  next
    case (Inr revision)
    show ?thesis
    proof (cases "revision = ExporterConfiguration cluster")
      case True
      with Some images Inr show ?thesis by (simp add: reconcilePGMonitorExporter_def)
    next
      case False
      with Some images Inr show ?thesis
        by (simp add: reconcilePGMonitorExporter_def split: prod.splits)
    qed
  qed
qed

theorem exporter_hash_gate_witness:
  "reconcilePGMonitorExporter exampleExporterEnv
       \<lparr>PostgresVersion = 15, ExporterConfiguration = ''DROP ROLE ccp_monitoring;[psql]''\<rparr>
       exampleInstances
     = (None, \<lparr>PostgresVersion = 15, ExporterConfiguration = ''DROP ROLE ccp_monitoring;[psql]''\<rparr>, [])
   \<and> (\<exists>revision.
         exporterRevision exampleExporterEnv \<lparr>PostgresVersion = 15, ExporterConfiguration = []\<rparr>
             [] [] = Inr revision
         \<and> revision \<noteq> [])"
proof -
  let ?c = "\<lparr>PostgresVersion = 15, ExporterConfiguration = ''DROP ROLE ccp_monitoring;[psql]''\<rparr>"
  let ?d = "\<lparr>PostgresVersion = 15, ExporterConfiguration = []\<rparr>"
  have images: "writableImages exampleExporterEnv cluster exampleInstances
      = Some (\<lparr>Namespace_pod = ''ns'', Name_pod = ''hippo-instance1-abcd-0'',
                ContainerStatuses = []\<rparr>, [], [])" for cluster
    by (simp add: writableImages_def exampleExporterEnv_fields exampleInstances_def)
  have rev: "exporterRevision exampleExporterEnv cluster [] []
      = Inr ''DROP ROLE ccp_monitoring;[psql]''" for cluster
    by (simp add: exporterRevision_def safeHash32_def exporterAction_def
          exampleExporterEnv_fields Fprint_command_def)
  have same: "reconcilePGMonitorExporter exampleExporterEnv ?c exampleInstances = (None, ?c, [])"
    using exporter_hash_gate [where e = exampleExporterEnv and cluster = ?c and instances = exampleInstances] images [of ?c] rev [of ?c]
    by (auto split: prod.splits)
  have calls: "fst (snd (reconcilePGMonitorExporter exampleExporterEnv ?d exampleInstances)) \<noteq> ?d"
    by (simp add: reconcilePGMonitorExporter_def images rev exampleExporterEnv_fields
          exporterAction_def Let_def)
  have "\<exists>revision. exporterRevision exampleExporterEnv ?d [] [] = Inr revision \<and> revision \<noteq> []"
    using exporter_hash_gate [where e = exampleExporterEnv and cluster = ?d and instances = exampleInstances] calls images [of ?d]
    by (auto split: prod.splits)
  with same show ?thesis by blast
qed

end
